theory Spec2Isabelle
  imports Complex_Main "HOL-Library.Sublist"
begin

section \<open>JavaScript numbers\<close>

text \<open>
  A JavaScript number is an IEEE-754 binary64 value.  A finite one is modelled by the real
  number it denotes, so that comparison is exact; the two infinities and NaN are separate
  constructors.  The two zeros are identified: no operation of \<^verbatim>\<open>run-audit.js\<close> tells them
  apart (\<^verbatim>\<open>-0 || 0\<close>, \<^verbatim>\<open>`${-0}`\<close> and \<^verbatim>\<open>(-0).toFixed(3)\<close> behave as for \<^verbatim>\<open>0\<close>).
  \<open>null\<close> and \<open>undefined\<close> are the value \<open>None\<close> of an option type.
\<close>

datatype jsnum = Fin real | PosInf | NegInf | NaN

text \<open>The relational operator \<^verbatim>\<open>a > b\<close> on numbers: false as soon as one side is NaN.\<close>

fun js_gt :: "jsnum \<Rightarrow> jsnum \<Rightarrow> bool" where
  "js_gt NaN b = False"
| "js_gt a NaN = False"
| "js_gt (Fin a) (Fin b) = (b < a)"
| "js_gt (Fin a) PosInf = False"
| "js_gt (Fin a) NegInf = True"
| "js_gt PosInf PosInf = False"
| "js_gt PosInf b = True"
| "js_gt NegInf b = False"

definition js_lt :: "jsnum \<Rightarrow> jsnum \<Rightarrow> bool" where
  "js_lt a b = js_gt b a"

text \<open>\<^verbatim>\<open>Math.round\<close>: the nearest integer, a tie going towards plus infinity.\<close>

fun Math_round :: "jsnum \<Rightarrow> jsnum" where
  "Math_round (Fin x) = Fin (of_int \<lfloor>x + 1 / 2\<rfloor>)"
| "Math_round v = v"

fun Math_floor :: "jsnum \<Rightarrow> jsnum" where
  "Math_floor (Fin x) = Fin (of_int \<lfloor>x\<rfloor>)"
| "Math_floor v = v"

subsection \<open>Rounding to binary64\<close>

definition pow2 :: "int \<Rightarrow> real" where
  "pow2 e = (if 0 \<le> e then 2 ^ nat e else 1 / 2 ^ nat (- e))"

definition pow10 :: "int \<Rightarrow> real" where
  "pow10 e = (if 0 \<le> e then 10 ^ nat e else 1 / 10 ^ nat (- e))"

definition round_ties_even :: "real \<Rightarrow> int" where
  "round_ties_even x =
     (let f = \<lfloor>x\<rfloor>; d = x - of_int f
      in if d < 1 / 2 then f else if 1 / 2 < d then f + 1 else if even f then f else f + 1)"

text \<open>
  \<open>find_exp m a\<close> is the greatest binary exponent \<open>e\<close> with \<open>-1022 < e \<le> m - 1022\<close> and
  \<open>2 ^ e \<le> a\<close>, and \<open>-1022\<close> (the exponent of the subnormal numbers) when there is none.
\<close>

fun find_exp :: "nat \<Rightarrow> real \<Rightarrow> int" where
  "find_exp 0 a = - 1022"
| "find_exp (Suc m) a =
     (if pow2 (int (Suc m) - 1022) \<le> a then int (Suc m) - 1022 else find_exp m a)"

text \<open>
  \<open>fl64 x\<close> is the binary64 value nearest to the real \<open>x\<close>, ties to even: 53 significant
  bits, exponents from \<open>-1022\<close> to \<open>1023\<close>, gradual underflow, overflow to an infinity.
  It is the rounding that every arithmetic operation on numbers applies to its exact result.
\<close>

definition fl64 :: "real \<Rightarrow> jsnum" where
  "fl64 x =
     (if x = 0 then Fin 0
      else let a = \<bar>x\<bar>;
               e = find_exp 2045 a;
               q = pow2 (e - 52);
               y = of_int (round_ties_even (a / q)) * q
           in if pow2 1024 \<le> y then (if x < 0 then NegInf else PosInf)
              else Fin (if x < 0 then - y else y))"

text \<open>The multiplicative operator \<^verbatim>\<open>a * b\<close>.\<close>

fun js_mul :: "jsnum \<Rightarrow> jsnum \<Rightarrow> jsnum" where
  "js_mul NaN b = NaN"
| "js_mul a NaN = NaN"
| "js_mul (Fin a) (Fin b) = fl64 (a * b)"
| "js_mul (Fin a) PosInf = (if a = 0 then NaN else if 0 < a then PosInf else NegInf)"
| "js_mul (Fin a) NegInf = (if a = 0 then NaN else if 0 < a then NegInf else PosInf)"
| "js_mul PosInf (Fin b) = (if b = 0 then NaN else if 0 < b then PosInf else NegInf)"
| "js_mul NegInf (Fin b) = (if b = 0 then NaN else if 0 < b then NegInf else PosInf)"
| "js_mul PosInf PosInf = PosInf"
| "js_mul PosInf NegInf = NegInf"
| "js_mul NegInf PosInf = NegInf"
| "js_mul NegInf NegInf = PosInf"

text \<open>
  \<^verbatim>\<open>v || d\<close> for a number or null \<open>v\<close>: the falsy values are null, undefined, zero and NaN.
\<close>

fun js_or :: "jsnum option \<Rightarrow> jsnum \<Rightarrow> jsnum" where
  "js_or None d = d"
| "js_or (Some NaN) d = d"
| "js_or (Some (Fin x)) d = (if x = 0 then d else Fin x)"
| "js_or (Some v) d = v"

text \<open>\<^verbatim>\<open>v ?? d\<close>: only null and undefined are replaced.\<close>

fun js_nullish :: "'a option \<Rightarrow> 'a \<Rightarrow> 'a" where
  "js_nullish None d = d"
| "js_nullish (Some v) d = v"

text \<open>
  The number literals of the source that are not integers.  \<^verbatim>\<open>0.1\<close> denotes the binary64
  value nearest to one tenth, which is \<open>3602879701896397 / 2 ^ 55\<close>; \<^verbatim>\<open>0.5\<close> is exact.
  \<open>lit_0_1001\<close> is the value of the literal \<^verbatim>\<open>0.1001\<close>, used in the boundary cases.
\<close>

definition lit_0_1 :: real where
  "lit_0_1 = 3602879701896397 / 36028797018963968"

definition lit_0_1001 :: real where
  "lit_0_1001 = 3606482581598293 / 36028797018963968"

definition lit_0_5 :: real where
  "lit_0_5 = 1 / 2"

subsection \<open>Numbers as strings\<close>

text \<open>
  Strings are modelled by their UTF-8 bytes, which is also what the report files hold.
\<close>

definition digit_char :: "nat \<Rightarrow> char" where
  "digit_char n = char_of (48 + n)"

fun digits :: "nat \<Rightarrow> string" where
  "digits n = (if n < 10 then [digit_char n] else digits (n div 10) @ [digit_char (n mod 10)])"

declare digits.simps [simp del]

text \<open>
  \<open>dec_exp_search m x\<close> is the greatest \<open>n \<le> m - 323\<close> with \<open>10 ^ (n - 1) \<le> x\<close>, so that
  \<open>dec_exp x\<close> is the decimal exponent \<open>n\<close> of a positive binary64 value:
  \<open>10 ^ (n - 1) \<le> x < 10 ^ n\<close>.
\<close>

fun dec_exp_search :: "nat \<Rightarrow> real \<Rightarrow> int" where
  "dec_exp_search 0 x = - 323"
| "dec_exp_search (Suc m) x =
     (if pow10 (int (Suc m) - 324) \<le> x then int (Suc m) - 323 else dec_exp_search m x)"

definition dec_exp :: "real \<Rightarrow> int" where
  "dec_exp x = dec_exp_search 632 x"

text \<open>
  The digits of \<^verbatim>\<open>Number::toString\<close>: the least number \<open>k\<close> of digits and the digit string
  \<open>s\<close> with \<open>fl64 (s * 10 ^ (n - k)) = x\<close>; of two digit strings the one nearer to \<open>x\<close>, an
  even one on a tie.  The search starts at \<open>k = 1\<close>; seventeen digits always identify a
  binary64 value, so the fuel \<open>f\<close>, which bounds the search for the reals that are
  none, does not run out on one.  The result is \<open>(s, k, n)\<close>.
\<close>

fun shortest :: "nat \<Rightarrow> nat \<Rightarrow> real \<Rightarrow> int \<Rightarrow> nat \<times> nat \<times> int" where
  "shortest 0 k x n = (nat \<lfloor>x / pow10 (n - int k)\<rfloor>, k, n)"
| "shortest (Suc f) k x n =
     (let q = pow10 (n - int k);
          lo = \<lfloor>x / q\<rfloor>;
          hi = lo + 1;
          okl = (fl64 (of_int lo * q) = Fin x);
          okh = (fl64 (of_int hi * q) = Fin x)
      in if okl \<or> okh then
           let c = (if okl \<and> okh then
                      (if x - of_int lo * q < of_int hi * q - x then lo
                       else if of_int hi * q - x < x - of_int lo * q then hi
                       else if even lo then lo else hi)
                    else if okl then lo else hi)
           in if c = 10 ^ k then (1, 1, n + 1) else (nat c, k, n)
         else shortest f (Suc k) x n)"

definition exponent_part :: "int \<Rightarrow> string" where
  "exponent_part e = ''e'' @ (if e < 0 then ''-'' else ''+'') @ digits (nat \<bar>e\<bar>)"

definition positive_to_string :: "real \<Rightarrow> string" where
  "positive_to_string x =
     (case shortest 17 1 x (dec_exp x) of (s, k, n) \<Rightarrow>
        let ds = digits s in
        if int k \<le> n \<and> n \<le> 21 then ds @ replicate (nat (n - int k)) (CHR ''0'')
        else if 0 < n \<and> n \<le> 21 then take (nat n) ds @ ''.'' @ drop (nat n) ds
        else if - 6 < n \<and> n \<le> 0 then ''0.'' @ replicate (nat (- n)) (CHR ''0'') @ ds
        else if k = 1 then ds @ exponent_part (n - 1)
        else take 1 ds @ ''.'' @ drop 1 ds @ exponent_part (n - 1))"

text \<open>\<^verbatim>\<open>`${v}`\<close> for a number \<open>v\<close> (\<^verbatim>\<open>Number::toString\<close>, radix 10).\<close>

fun js_to_string :: "jsnum \<Rightarrow> string" where
  "js_to_string NaN = ''NaN''"
| "js_to_string PosInf = ''Infinity''"
| "js_to_string NegInf = ''-Infinity''"
| "js_to_string (Fin x) =
     (if x = 0 then ''0''
      else if x < 0 then ''-'' @ positive_to_string (- x)
      else positive_to_string x)"

text \<open>
  \<^verbatim>\<open>v.toFixed(f)\<close>: the integer \<open>n\<close> nearest to \<open>x * 10 ^ f\<close> (the larger one on a tie),
  written with at least \<open>f + 1\<close> digits and a point before the last \<open>f\<close>.
\<close>

definition fixed_digits :: "nat \<Rightarrow> real \<Rightarrow> string" where
  "fixed_digits f x =
     (if 10 ^ 21 \<le> x then positive_to_string x
      else let n = nat \<lfloor>x * 10 ^ f + 1 / 2\<rfloor>;
               m = (if n = 0 then ''0'' else digits n)
           in if f = 0 then m
              else let m' = (if length m \<le> f then replicate (f + 1 - length m) (CHR ''0'') @ m
                             else m);
                       k = length m'
                   in take (k - f) m' @ ''.'' @ drop (k - f) m')"

fun toFixed :: "jsnum \<Rightarrow> nat \<Rightarrow> string" where
  "toFixed (Fin x) f = (if x < 0 then ''-'' @ fixed_digits f (- x) else fixed_digits f x)"
| "toFixed v f = js_to_string v"

section \<open>Data model\<close>

text \<open>The Lighthouse result \<^verbatim>\<open>lhr\<close>, as far as \<^verbatim>\<open>runLighthouse\<close> reads it.\<close>

record category =
  score :: "jsnum option"

record audit =
  numericValue :: "jsnum option"

record lhr =
  categories :: "string \<rightharpoonup> category"
  audits :: "string \<rightharpoonup> audit"

record scores =
  performance :: jsnum
  accessibility :: jsnum
  bestPractices :: jsnum
  seo :: jsnum

record metrics =
  lcp_ms :: "jsnum option"
  cls :: "jsnum option"
  tbt_ms :: "jsnum option"
  speedIndex_ms :: "jsnum option"

text \<open>
  What \<^verbatim>\<open>runLighthouse\<close> returns: \<^verbatim>\<open>{ scores, metrics, report: lhr }\<close>.  A page record
  keeps \<^verbatim>\<open>{ scores, metrics }\<close> of it.
\<close>

record score_metrics =
  scores :: scores
  metrics :: metrics

record score_report = score_metrics +
  report :: lhr

record image =
  src :: string
  alt :: "string option"
  width :: "string option"
  height :: "string option"
  loading :: "string option"

text \<open>What \<^verbatim>\<open>scanPage\<close> returns.  The counts are array lengths.\<close>

record scan_result =
  imageCount :: nat
  missingAltCount :: nat
  lazyCount :: nat
  hasSearch :: bool
  hasAddToCart :: bool
  hasPrice :: bool
  hasShippingText :: bool
  images :: "image list"

datatype severity = HIGH | MED | LOW

record finding =
  severity :: severity
  type :: string
  recommendation :: string

section \<open>Errors\<close>

text \<open>
  A rejected promise or a thrown exception is a value: \<open>Inl e\<close> of a sum type.  \<open>TypeError\<close>
  is what reading a property of \<open>undefined\<close> throws, \<open>Error\<close> stands for the failures of the
  external calls (browser launch, Lighthouse, network, file system).
\<close>

datatype error = Error string | TypeError string

section \<open>Scorer adapter\<close>

text \<open>
  The part of \<^verbatim>\<open>runLighthouse\<close> between the Lighthouse call and the \<^verbatim>\<open>return\<close>.
  \<^verbatim>\<open>lhr.categories.performance.score\<close> throws when the category is missing;
  \<^verbatim>\<open>lhr.audits["..."]?.numericValue ?? null\<close> does not when the audit is.
\<close>

definition category_score :: "lhr \<Rightarrow> string \<Rightarrow> error + jsnum" where
  "category_score l name =
     (case categories l name of
        None \<Rightarrow> Inl (TypeError name)
      | Some c \<Rightarrow> Inr (Math_round (js_mul (js_or (score c) (Fin 0)) (Fin 100))))"

definition audit_value :: "lhr \<Rightarrow> string \<Rightarrow> jsnum option" where
  "audit_value l name =
     js_nullish (case audits l name of None \<Rightarrow> None | Some a \<Rightarrow> map_option Some (numericValue a))
       None"

definition score_report_of :: "lhr \<Rightarrow> error + score_report" where
  "score_report_of l =
     (case category_score l ''performance'' of Inl e \<Rightarrow> Inl e | Inr p \<Rightarrow>
     (case category_score l ''accessibility'' of Inl e \<Rightarrow> Inl e | Inr a \<Rightarrow>
     (case category_score l ''best-practices'' of Inl e \<Rightarrow> Inl e | Inr b \<Rightarrow>
     (case category_score l ''seo'' of Inl e \<Rightarrow> Inl e | Inr q \<Rightarrow>
        Inr \<lparr>scores = \<lparr>performance = p, accessibility = a, bestPractices = b, seo = q\<rparr>,
             metrics =
               \<lparr>lcp_ms = audit_value l ''largest-contentful-paint'',
                cls = audit_value l ''cumulative-layout-shift'',
                tbt_ms = audit_value l ''total-blocking-time'',
                speedIndex_ms = audit_value l ''speed-index''\<rparr>,
             report = l\<rparr>))))"

text \<open>
  The outcomes of the external calls of one \<^verbatim>\<open>runLighthouse\<close>: the browser launch, the
  Lighthouse run (whose result may be \<open>undefined\<close>) and \<^verbatim>\<open>chrome.kill()\<close>.
\<close>

record lh_env =
  launch_result :: "error option"
  lighthouse_result :: "error + lhr option"
  kill_result :: "error option"

text \<open>
  \<^verbatim>\<open>runLighthouse\<close>: a failed launch rejects before the \<^verbatim>\<open>try\<close>; otherwise the
  \<^verbatim>\<open>finally\<close> block runs \<^verbatim>\<open>chrome.kill()\<close>, whose failure replaces the outcome of the
  \<^verbatim>\<open>try\<close> block.
\<close>

definition runLighthouse :: "lh_env \<Rightarrow> error + score_report" where
  "runLighthouse env =
     (case launch_result env of
        Some e \<Rightarrow> Inl e
      | None \<Rightarrow>
          (let tried =
                 (case lighthouse_result env of
                    Inl e \<Rightarrow> Inl e
                  | Inr None \<Rightarrow> Inl (TypeError ''lhr'')
                  | Inr (Some l) \<Rightarrow> score_report_of l)
           in (case kill_result env of Some e \<Rightarrow> Inl e | None \<Rightarrow> tried)))"

section \<open>Documents\<close>

text \<open>
  The document that the HTML parser hands to \<^verbatim>\<open>scanPage\<close>, as a tree.  An element has
  a namespace: the parser puts the elements inside \<^verbatim>\<open><svg>\<close> and \<^verbatim>\<open><math>\<close> into the
  SVG and MathML namespaces, except for the tags that leave foreign content, such as
  \<^verbatim>\<open>img\<close>; \<^verbatim>\<open>button\<close>, \<^verbatim>\<open>form\<close> and \<^verbatim>\<open>input\<close> stay inside.  Tag and attribute names
  are as the parser leaves them (lower case); an attribute list holds each name once.
\<close>

datatype namespace = HTML | SVG | MathML

datatype node =
    Element namespace string "(string \<times> string) list" "node list"
  | Text string
  | Comment string

fun localName :: "node \<Rightarrow> string" where
  "localName (Element ns t a cs) = t"
| "localName n = []"

text \<open>The node is an element of the HTML namespace.\<close>

fun html_element :: "node \<Rightarrow> bool" where
  "html_element (Element ns t a cs) = (ns = HTML)"
| "html_element n = False"

fun getAttribute :: "node \<Rightarrow> string \<Rightarrow> string option" where
  "getAttribute (Element ns t a cs) name = map_of a name"
| "getAttribute n name = None"

fun textContent :: "node \<Rightarrow> string" where
  "textContent (Element ns t a cs) = concat (map textContent cs)"
| "textContent (Text d) = d"
| "textContent (Comment d) = []"

text \<open>The elements of a tree in document order, each with its ancestors, nearest first.\<close>

fun walk :: "node list \<Rightarrow> node \<Rightarrow> (node list \<times> node) list" where
  "walk anc (Element ns t a cs) =
     (anc, Element ns t a cs) # concat (map (walk (Element ns t a cs # anc)) cs)"
| "walk anc n = []"

text \<open>
  \<^verbatim>\<open>querySelectorAll\<close> and \<^verbatim>\<open>querySelector\<close> for a selector given as a predicate on an
  element and its ancestors.
\<close>

definition querySelectorAll :: "(node list \<Rightarrow> node \<Rightarrow> bool) \<Rightarrow> node \<Rightarrow> node list" where
  "querySelectorAll sel doc = map snd (filter (\<lambda>(anc, e). sel anc e) (walk [] doc))"

definition querySelector :: "(node list \<Rightarrow> node \<Rightarrow> bool) \<Rightarrow> node \<Rightarrow> node option" where
  "querySelector sel doc = (case querySelectorAll sel doc of [] \<Rightarrow> None | e # es \<Rightarrow> Some e)"

text \<open>
  \<^verbatim>\<open>document.body\<close>: the first child of the html element that is a body or frameset
  element, all three of the HTML namespace.
\<close>

definition body :: "node \<Rightarrow> node option" where
  "body doc =
     (case doc of
        Element ns t a cs \<Rightarrow>
          if ns = HTML \<and> t = ''html'' then
            find (\<lambda>c. html_element c \<and> (localName c = ''body'' \<or> localName c = ''frameset'')) cs
          else None
      | _ \<Rightarrow> None)"

subsection \<open>String operations\<close>

text \<open>
  \<^verbatim>\<open>toLowerCase\<close> on the letters A to Z.  The source compares its results with
  \<^verbatim>\<open>"lazy"\<close>, \<^verbatim>\<open>"add"\<close> and \<^verbatim>\<open>"cart"\<close> only, and no character outside ASCII has a lower
  case form among the letters of these words, so the other case mappings do not show.
  The same mapping is the case folding of a regular expression with the flag \<^verbatim>\<open>i\<close>, which
  never identifies a character outside ASCII with one inside.
\<close>

definition lower_char :: "char \<Rightarrow> char" where
  "lower_char c =
     (let n = (of_char c :: nat) in if 65 \<le> n \<and> n \<le> 90 then char_of (n + 32) else c)"

definition toLowerCase :: "string \<Rightarrow> string" where
  "toLowerCase s = map lower_char s"

text \<open>\<^verbatim>\<open>s.includes(p)\<close>.\<close>

definition includes_str :: "string \<Rightarrow> string \<Rightarrow> bool" where
  "includes_str s p = sublist p s"

text \<open>
  The white space and line terminator characters that \<^verbatim>\<open>trim\<close> removes, in UTF-8:
  U+0009 to U+000D, U+0020, U+00A0, U+1680, U+2000 to U+200A, U+2028, U+2029, U+202F,
  U+205F, U+3000 and U+FEFF.
\<close>

definition white_space :: "string list" where
  "white_space =
     [[CHR 0x09], [CHR 0x0A], [CHR 0x0B], [CHR 0x0C], [CHR 0x0D], [CHR 0x20],
      [CHR 0xC2, CHR 0xA0], [CHR 0xE1, CHR 0x9A, CHR 0x80]] @
     map (\<lambda>n. [CHR 0xE2, CHR 0x80, char_of (128 + n)]) [0 ..< 11 :: nat] @
     [[CHR 0xE2, CHR 0x80, CHR 0xA8], [CHR 0xE2, CHR 0x80, CHR 0xA9],
      [CHR 0xE2, CHR 0x80, CHR 0xAF], [CHR 0xE2, CHR 0x81, CHR 0x9F],
      [CHR 0xE3, CHR 0x80, CHR 0x80], [CHR 0xEF, CHR 0xBB, CHR 0xBF]]"

text \<open>
  \<open>trimStart\<close> drops white space characters for as long as the string starts with one;
  the fuel is the length of the string, since each step drops at least one byte.
\<close>

fun drop_space :: "nat \<Rightarrow> string \<Rightarrow> string" where
  "drop_space 0 s = s"
| "drop_space (Suc f) s =
     (case find (\<lambda>w. prefix w s) white_space of
        None \<Rightarrow> s
      | Some w \<Rightarrow> drop_space f (drop (length w) s))"

definition trimStart :: "string \<Rightarrow> string" where
  "trimStart s = drop_space (length s) s"

fun chop_space :: "nat \<Rightarrow> string \<Rightarrow> string" where
  "chop_space 0 s = s"
| "chop_space (Suc f) s =
     (case find (\<lambda>w. suffix w s) white_space of
        None \<Rightarrow> s
      | Some w \<Rightarrow> chop_space f (take (length s - length w) s))"

definition trimEnd :: "string \<Rightarrow> string" where
  "trimEnd s = chop_space (length s) s"

definition trim :: "string \<Rightarrow> string" where
  "trim s = trimEnd (trimStart s)"

text \<open>\<^verbatim>\<open>/\$[\d,.]+/.test(s)\<close>: a dollar sign followed by a digit, a comma or a full stop.\<close>

definition price_char :: "char \<Rightarrow> bool" where
  "price_char c = (((of_char c :: nat) \<ge> 48 \<and> (of_char c :: nat) \<le> 57) \<or> c = CHR '','' \<or> c = CHR ''.'')"

fun price_pattern :: "string \<Rightarrow> bool" where
  "price_pattern (a # b # cs) = ((a = CHR ''$'' \<and> price_char b) \<or> price_pattern (b # cs))"
| "price_pattern s = False"

text \<open>\<^verbatim>\<open>/(shipping|returns|money[- ]back|guarantee)/i.test(s)\<close>.\<close>

definition shipping_pattern :: "string \<Rightarrow> bool" where
  "shipping_pattern s =
     (let t = map lower_char s
      in sublist ''shipping'' t \<or> sublist ''returns'' t \<or> sublist ''money-back'' t \<or>
         sublist ''money back'' t \<or> sublist ''guarantee'' t)"

subsection \<open>Selectors\<close>

text \<open>
  The selectors of the source.  A type selector such as \<^verbatim>\<open>button\<close> matches the local
  name, in every namespace.  The values of \<^verbatim>\<open>name\<close> and \<^verbatim>\<open>action\<close> are compared exactly.
  The value of \<^verbatim>\<open>type\<close> is compared without regard to ASCII case on an element of the HTML
  namespace, and exactly on an element of another namespace.
\<close>

definition attr_contains :: "string \<Rightarrow> string \<Rightarrow> node \<Rightarrow> bool" where
  "attr_contains name v e = (case getAttribute e name of None \<Rightarrow> False | Some a \<Rightarrow> sublist v a)"

definition attr_is :: "string \<Rightarrow> string \<Rightarrow> node \<Rightarrow> bool" where
  "attr_is name v e = (getAttribute e name = Some v)"

definition attr_is_ci :: "string \<Rightarrow> string \<Rightarrow> node \<Rightarrow> bool" where
  "attr_is_ci name v e =
     (case getAttribute e name of
        None \<Rightarrow> False
      | Some a \<Rightarrow> if html_element e then map lower_char a = map lower_char v else a = v)"

text \<open>\<^verbatim>\<open>img\<close>\<close>

definition sel_img :: "node list \<Rightarrow> node \<Rightarrow> bool" where
  "sel_img anc e = (localName e = ''img'')"

text \<open>\<^verbatim>\<open>form[action*="search"], input[type="search"], input[name="q"]\<close>\<close>

definition sel_search :: "node list \<Rightarrow> node \<Rightarrow> bool" where
  "sel_search anc e =
     ((localName e = ''form'' \<and> attr_contains ''action'' ''search'' e) \<or>
      (localName e = ''input'' \<and> attr_is_ci ''type'' ''search'' e) \<or>
      (localName e = ''input'' \<and> attr_is ''name'' ''q'' e))"

text \<open>\<^verbatim>\<open>form[action*='cart/add'] button, button[name='add'], button[type='submit']\<close>\<close>

definition sel_add_to_cart :: "node list \<Rightarrow> node \<Rightarrow> bool" where
  "sel_add_to_cart anc e =
     ((localName e = ''button'' \<and>
       list_ex (\<lambda>f. localName f = ''form'' \<and> attr_contains ''action'' ''cart/add'' f) anc) \<or>
      (localName e = ''button'' \<and> attr_is ''name'' ''add'' e) \<or>
      (localName e = ''button'' \<and> attr_is_ci ''type'' ''submit'' e))"

section \<open>Page scanner\<close>

text \<open>The record that \<^verbatim>\<open>scanPage\<close> builds for one \<^verbatim>\<open>img\<close> element.\<close>

definition image_of :: "node \<Rightarrow> image" where
  "image_of img =
     \<lparr>src = (case getAttribute img ''src'' of None \<Rightarrow> [] | Some v \<Rightarrow> v),
      alt = getAttribute img ''alt'',
      width = getAttribute img ''width'',
      height = getAttribute img ''height'',
      loading = getAttribute img ''loading''\<rparr>"

definition all_images :: "node \<Rightarrow> image list" where
  "all_images doc = map image_of (querySelectorAll sel_img doc)"

text \<open>\<^verbatim>\<open>i.alt === null || i.alt.trim() === ""\<close>\<close>

definition missing_alt :: "image \<Rightarrow> bool" where
  "missing_alt i = (case alt i of None \<Rightarrow> True | Some a \<Rightarrow> trim a = [])"

text \<open>\<^verbatim>\<open>(i.loading || "").toLowerCase() === "lazy"\<close>\<close>

definition is_lazy :: "image \<Rightarrow> bool" where
  "is_lazy i = (toLowerCase (case loading i of None \<Rightarrow> [] | Some v \<Rightarrow> v) = ''lazy'')"

definition addToCartButtons :: "node \<Rightarrow> string list" where
  "addToCartButtons doc =
     map (\<lambda>b. toLowerCase (trim (textContent b))) (querySelectorAll sel_add_to_cart doc)"

definition body_text :: "node \<Rightarrow> string" where
  "body_text doc = (case body doc of None \<Rightarrow> [] | Some b \<Rightarrow> textContent b)"

text \<open>\<^verbatim>\<open>scanPage\<close> from the parsed document on (lines 62 to 91).\<close>

definition scan_document :: "node \<Rightarrow> scan_result" where
  "scan_document doc =
     (let images = all_images doc;
          missingAltCount = length (filter missing_alt images);
          lazyCount = length (filter is_lazy images);
          hasSearch = (querySelector sel_search doc \<noteq> None);
          buttons = addToCartButtons doc;
          hasAddToCart =
            (list_ex (\<lambda>t. includes_str t ''add'' \<and> includes_str t ''cart'') buttons \<or> length buttons > 0);
          hasPrice = price_pattern (body_text doc);
          hasShippingText = shipping_pattern (body_text doc)
      in \<lparr>imageCount = length images,
          missingAltCount = missingAltCount,
          lazyCount = lazyCount,
          hasSearch = hasSearch,
          hasAddToCart = hasAddToCart,
          hasPrice = hasPrice,
          hasShippingText = hasShippingText,
          images = take 40 images\<rparr>)"

text \<open>
  \<^verbatim>\<open>scanPage\<close>: the fetch of the page and the parsing of its body are external; their
  outcome is the document or the error that rejects the promise.
\<close>

definition scanPage :: "error + node \<Rightarrow> error + scan_result" where
  "scanPage fetched = (case fetched of Inl e \<Rightarrow> Inl e | Inr doc \<Rightarrow> Inr (scan_document doc))"

section \<open>Findings engine\<close>

text \<open>
  \<^verbatim>\<open>prioritizeFindings({ lhMobile, scan })\<close>.  Each \<^verbatim>\<open>findings.push\<close> appends to the list.
  \<^verbatim>\<open>scan.imageCount * 0.5\<close> is exact, an array length being below \<open>2 ^ 32\<close>.
\<close>

definition prioritizeFindings :: "score_report \<Rightarrow> scan_result \<Rightarrow> finding list" where
  "prioritizeFindings lhMobile scan =
     (let findings = [];
          findings =
            (case lcp_ms (metrics lhMobile) of
               None \<Rightarrow> findings
             | Some lcp \<Rightarrow>
                 if js_gt lcp (Fin 3500) then
                   findings @
                   [\<lparr>severity = HIGH, type = ''Performance'',
                     recommendation =
                       ''Mobile LCP is '' @ js_to_string (Math_round lcp) @
                       ''ms. Compress/resize above-the-fold images and reduce heavy sections. Target < 2500ms.''\<rparr>]
                 else findings);
          findings =
            (case cls (metrics lhMobile) of
               None \<Rightarrow> findings
             | Some c \<Rightarrow>
                 if js_gt c (Fin lit_0_1) then
                   findings @
                   [\<lparr>severity = MED, type = ''UX / Layout'',
                     recommendation =
                       ''Mobile CLS is '' @ toFixed c 3 @
                       ''. Ensure images have width/height set; avoid late-loading banners/popups pushing content. Target < 0.10.''\<rparr>]
                 else findings);
          findings =
            (if missingAltCount scan > 0 then
               findings @
               [\<lparr>severity = MED, type = ''Accessibility / SEO'',
                 recommendation =
                   digits (missingAltCount scan) @
                   '' images are missing alt text. Add descriptive alt text (especially on product/collection images).''\<rparr>]
             else findings);
          findings =
            (if imageCount scan > 25 \<and>
                js_lt (Fin (real (lazyCount scan)))
                  (Math_floor (Fin (real (imageCount scan) * lit_0_5)))
             then
               findings @
               [\<lparr>severity = MED, type = ''Images'',
                 recommendation =
                   ''Many images ('' @ digits (imageCount scan) @ '') but only '' @
                   digits (lazyCount scan) @
                   '' lazy-loaded. Consider enabling lazy-loading for below-the-fold images.''\<rparr>]
             else findings);
          findings =
            (if hasAddToCart scan \<and> \<not> hasShippingText scan then
               findings @
               [\<lparr>severity = LOW, type = ''Trust / Conversion'',
                 recommendation =
                   ''Page appears to have Add-to-Cart but little visible shipping/returns/guarantee text. Consider adding a short trust row near the ATC (shipping + guarantee).''\<rparr>]
             else findings)
      in findings)"

section \<open>Reports\<close>

text \<open>The record of one page, the report of a run.\<close>

record page_record =
  url :: string
  mobile :: score_metrics
  desktop :: score_metrics
  scan :: scan_result
  findings :: "finding list"

record audit_report =
  generatedAt :: string
  pages :: "page_record list"

text \<open>One row of the webhook payload.\<close>

record sheet_row =
  date :: string
  row_url :: string
  perf_mobile :: jsnum
  a11y_mobile :: jsnum
  bp_mobile :: jsnum
  seo_mobile :: jsnum
  row_lcp_ms :: "jsnum option"
  row_cls :: "jsnum option"
  key_findings :: string

section \<open>HTML renderer\<close>

text \<open>\<^verbatim>\<open>`${f.severity}`\<close>: the severity of a finding is the string itself.\<close>

fun severity_string :: "severity \<Rightarrow> string" where
  "severity_string HIGH = ''HIGH''"
| "severity_string MED = ''MED''"
| "severity_string LOW = ''LOW''"

text \<open>The row of the summary table for a page.\<close>

definition table_row :: "page_record \<Rightarrow> string" where
  "table_row p =
     ''\<newline>'' @
     ''    <tr>\<newline>'' @
     ''      <td>'' @ url p @ ''</td>\<newline>'' @
     ''      <td>'' @ js_to_string (performance (scores (mobile p))) @ ''</td>\<newline>'' @
     ''      <td>'' @ js_to_string (accessibility (scores (mobile p))) @ ''</td>\<newline>'' @
     ''      <td>'' @ js_to_string (bestPractices (scores (mobile p))) @ ''</td>\<newline>'' @
     ''      <td>'' @ js_to_string (seo (scores (mobile p))) @ ''</td>\<newline>'' @
     ''      <td>'' @
       js_to_string (Math_round (js_nullish (lcp_ms (metrics (mobile p))) (Fin 0))) @
       ''</td>\<newline>'' @
     ''      <td>'' @ toFixed (js_nullish (cls (metrics (mobile p))) (Fin 0)) 3 @ ''</td>\<newline>'' @
     ''    </tr>\<newline>'' @
     ''  ''"

text \<open>\<^verbatim>\<open>Array.prototype.join\<close> on strings.\<close>

fun join :: "string \<Rightarrow> string list \<Rightarrow> string" where
  "join sep [] = []"
| "join sep [x] = x"
| "join sep (x # y # ys) = x @ sep @ join sep (y # ys)"

text \<open>The list item of a finding; the dash is U+2014.\<close>

definition finding_item :: "page_record \<Rightarrow> finding \<Rightarrow> string" where
  "finding_item p f =
     ''<li><b>['' @ severity_string (severity f) @ '']</b> '' @ url p @ '' '' @
     [CHR 0xE2, CHR 0x80, CHR 0x94] @ '' '' @ type f @ '': '' @ recommendation f @ ''</li>''"

definition renderHtmlReport :: "audit_report \<Rightarrow> string" where
  \<open>renderHtmlReport rep =
     (let rows = join [] (map table_row (pages rep));
          items = join [] (map (\<lambda>p. join [] (map (finding_item p) (findings p))) (pages rep))
      in ''<!doctype html>\<newline>'' @
         ''<html>\<newline>'' @
         ''<head>\<newline>'' @
         ''  <meta charset="utf-8" />\<newline>'' @
         ''  <title>GritAudit Weekly Report</title>\<newline>'' @
         ''  <style>\<newline>'' @
         ''    body { font-family: Arial, sans-serif; margin: 24px; }\<newline>'' @
         ''    table { border-collapse: collapse; width: 100%; margin-top: 12px; }\<newline>'' @
         ''    th, td { border: 1px solid #ddd; padding: 8px; font-size: 14px; }\<newline>'' @
         ''    th { background: #f6f6f6; text-align: left; }\<newline>'' @
         ''    .small { color:#555; font-size: 13px; }\<newline>'' @
         ''  </style>\<newline>'' @
         ''</head>\<newline>'' @
         ''<body>\<newline>'' @
         ''  <h1>GritAudit Weekly Report</h1>\<newline>'' @
         ''  <div class="small">Generated: '' @
         generatedAt rep @
         ''</div>\<newline>'' @
         ''\<newline>'' @
         ''  <h2>Summary Table (Mobile)</h2>\<newline>'' @
         ''  <table>\<newline>'' @
         ''    <thead>\<newline>'' @
         ''      <tr>\<newline>'' @
         ''        <th>URL</th>\<newline>'' @
         ''        <th>Perf</th>\<newline>'' @
         ''        <th>A11y</th>\<newline>'' @
         ''        <th>BP</th>\<newline>'' @
         ''        <th>SEO</th>\<newline>'' @
         ''        <th>LCP (ms)</th>\<newline>'' @
         ''        <th>CLS</th>\<newline>'' @
         ''      </tr>\<newline>'' @
         ''    </thead>\<newline>'' @
         ''    <tbody>'' @
         rows @
         ''</tbody>\<newline>'' @
         ''  </table>\<newline>'' @
         ''\<newline>'' @
         ''  <h2>Prioritized Recommendations</h2>\<newline>'' @
         ''  <ul>'' @
         (if items = [] then ''<li>No major issues flagged by rules this run.</li>'' else items) @
         ''</ul>\<newline>'' @
         ''\<newline>'' @
         ''</body>\<newline>'' @
         ''</html>'')\<close>

section \<open>Webhook sink and main\<close>

text \<open>
  The configuration: \<^verbatim>\<open>PAGES\<close>, and \<^verbatim>\<open>process.env.GS_WEBHOOK_URL || ""\<close>, where the
  variable may be unset.
\<close>

definition PAGES :: "string list" where
  "PAGES =
     [''https://gritarmy.com/'',
      ''https://gritarmy.com/collections/socks'',
      ''https://gritarmy.com/cart'',
      ''https://gritarmy.com/products/high-compression-socks-adult'',
      ''https://gritarmy.com/products/premium-athletic-crew-socks'',
      ''https://gritarmy.com/products/grit-army-trifecta'']"

definition GOOGLE_SHEETS_WEBHOOK_URL :: "string option \<Rightarrow> string" where
  "GOOGLE_SHEETS_WEBHOOK_URL GS_WEBHOOK_URL =
     (case GS_WEBHOOK_URL of None \<Rightarrow> [] | Some v \<Rightarrow> v)"

text \<open>
  The outcomes of the external calls of a run.  \<open>page_env i\<close> holds those of the three
  calls for the page at position \<open>i\<close> of the page list; \<open>mkdir_top\<close> is the
  \<^verbatim>\<open>fs.mkdirSync\<close> at module level, \<open>mkdir_main\<close> the one in \<^verbatim>\<open>main\<close>.
\<close>

record page_env =
  mobile_calls :: lh_env
  desktop_calls :: lh_env
  fetched :: "error + node"

record env =
  now :: string
  page_env :: "nat \<Rightarrow> page_env"
  GS_WEBHOOK_URL :: "string option"
  mkdir_top :: "error option"
  mkdir_main :: "error option"
  write_json :: "error option"
  write_html :: "error option"
  post_result :: "error option"

text \<open>
  What a run leaves behind.  A JSON document is kept as the value that is serialised:
  the JSON file as the report, the body of the POST as its rows.  \<open>audited\<close> lists the
  pages for which the three calls were issued.
\<close>

datatype file_content = Json audit_report | Html string

record outcome =
  stdout :: "string list"
  stderr :: "(string \<times> error) list"
  audited :: "string list"
  files :: "(string \<times> file_content) list"
  posts :: "(string \<times> sheet_row list) list"
  exit_code :: nat

definition start :: outcome where
  "start = \<lparr>stdout = [], stderr = [], audited = [], files = [], posts = [], exit_code = 0\<rparr>"

text \<open>
  \<^verbatim>\<open>postToGoogleSheets\<close>: nothing when the URL is empty; otherwise one POST, whose
  failure is caught and logged.
\<close>

definition postToGoogleSheets :: "env \<Rightarrow> sheet_row list \<Rightarrow> outcome \<Rightarrow> outcome" where
  "postToGoogleSheets env rows w =
     (if GOOGLE_SHEETS_WEBHOOK_URL (GS_WEBHOOK_URL env) = [] then w
      else
        (let w = w\<lparr>posts := posts w @ [(GOOGLE_SHEETS_WEBHOOK_URL (GS_WEBHOOK_URL env), rows)]\<rparr>
         in (case post_result env of
               None \<Rightarrow> w
             | Some e \<Rightarrow> w\<lparr>stderr := stderr w @ [(''Google Sheets webhook error:'', e)]\<rparr>)))"

text \<open>
  \<^verbatim>\<open>Promise.all\<close> of three promises: the three values, or a rejection as soon as one
  promise rejects.  The reason is that of the promise that rejects first in time; the
  model has no time and takes the first in array order.
\<close>

definition Promise_all :: "error + 'a \<Rightarrow> error + 'b \<Rightarrow> error + 'c \<Rightarrow> error + 'a \<times> 'b \<times> 'c" where
  "Promise_all a b c =
     (case a of Inl e \<Rightarrow> Inl e | Inr x \<Rightarrow>
     (case b of Inl e \<Rightarrow> Inl e | Inr y \<Rightarrow>
     (case c of Inl e \<Rightarrow> Inl e | Inr z \<Rightarrow> Inr (x, y, z))))"

text \<open>The body of the loop of \<^verbatim>\<open>main\<close> after the log line: the page record, or the rejection.\<close>

definition audit_page :: "page_env \<Rightarrow> string \<Rightarrow> error + page_record" where
  "audit_page pe u =
     (case Promise_all (runLighthouse (mobile_calls pe)) (runLighthouse (desktop_calls pe))
             (scanPage (fetched pe)) of
        Inl e \<Rightarrow> Inl e
      | Inr (lhMobile, lhDesktop, scn) \<Rightarrow>
          Inr \<lparr>url = u,
               mobile = \<lparr>scores = scores lhMobile, metrics = metrics lhMobile\<rparr>,
               desktop = \<lparr>scores = scores lhDesktop, metrics = metrics lhDesktop\<rparr>,
               scan = scn,
               findings = prioritizeFindings lhMobile scn\<rparr>)"

text \<open>
  The loop \<^verbatim>\<open>for (const url of PAGES)\<close> over the pages with their positions.  A rejection
  leaves the loop; the state of the outside world at that point is returned with it.
\<close>

fun audit_pages ::
  "env \<Rightarrow> (nat \<times> string) list \<Rightarrow> audit_report \<Rightarrow> outcome \<Rightarrow> (error + audit_report) \<times> outcome" where
  "audit_pages env [] rep w = (Inr rep, w)"
| "audit_pages env ((i, u) # rest) rep w =
     (let w = w\<lparr>stdout := stdout w @ [''Auditing: '' @ u], audited := audited w @ [u]\<rparr>
      in (case audit_page (page_env env i) u of
            Inl e \<Rightarrow> (Inl e, w)
          | Inr p \<Rightarrow> audit_pages env rest (rep\<lparr>pages := pages rep @ [p]\<rparr>) w))"

definition key_findings_of :: "page_record \<Rightarrow> string" where
  "key_findings_of p =
     join '' | ''
       (map (\<lambda>f. ''['' @ severity_string (severity f) @ ''] '' @ type f) (take 2 (findings p)))"

definition sheetRows :: "audit_report \<Rightarrow> sheet_row list" where
  "sheetRows rep =
     map (\<lambda>p. \<lparr>date = generatedAt rep,
               row_url = url p,
               perf_mobile = performance (scores (mobile p)),
               a11y_mobile = accessibility (scores (mobile p)),
               bp_mobile = bestPractices (scores (mobile p)),
               seo_mobile = seo (scores (mobile p)),
               row_lcp_ms = lcp_ms (metrics (mobile p)),
               row_cls = cls (metrics (mobile p)),
               key_findings = key_findings_of p\<rparr>)
       (pages rep)"

text \<open>
  \<^verbatim>\<open>main\<close>, from the outside world \<open>w\<close>: the error that rejects it, if any, and the world
  after it.  A failed \<^verbatim>\<open>fs\<close> call throws before it has any effect.
\<close>

definition main :: "env \<Rightarrow> string list \<Rightarrow> outcome \<Rightarrow> error option \<times> outcome" where
  "main env page_list w =
     (let rep = \<lparr>generatedAt = now env, pages = []\<rparr>
      in (case audit_pages env (enumerate 0 page_list) rep w of
            (Inl e, w) \<Rightarrow> (Some e, w)
          | (Inr rep, w) \<Rightarrow>
              (case mkdir_main env of Some e \<Rightarrow> (Some e, w) | None \<Rightarrow>
              (case write_json env of Some e \<Rightarrow> (Some e, w) | None \<Rightarrow>
                (let w = w\<lparr>files := files w @ [(''out/gritaudit-report.json'', Json rep)]\<rparr>
                 in (case write_html env of Some e \<Rightarrow> (Some e, w) | None \<Rightarrow>
                      (let w = w\<lparr>files := files w @
                                    [(''out/gritaudit-report.html'', Html (renderHtmlReport rep))]\<rparr>;
                           w = postToGoogleSheets env (sheetRows rep) w;
                           w = w\<lparr>stdout := stdout w @ [''Done. Reports in /out'']\<rparr>
                       in (None, w))))))))"

text \<open>
  The script: the module-level \<^verbatim>\<open>mkdirSync\<close>, whose exception nothing catches, then
  \<^verbatim>\<open>main().catch(err => { console.error(err); process.exit(1); })\<close>.  A process whose main
  promise is fulfilled ends with exit code 0.
\<close>

definition run_audit :: "env \<Rightarrow> string list \<Rightarrow> outcome" where
  "run_audit env page_list =
     (case mkdir_top env of
        Some e \<Rightarrow> start\<lparr>stderr := [(''Uncaught'', e)], exit_code := 1\<rparr>
      | None \<Rightarrow>
          (case main env page_list start of
             (Some e, w) \<Rightarrow> w\<lparr>stderr := stderr w @ [([], e)], exit_code := 1\<rparr>
           | (None, w) \<Rightarrow> w\<lparr>exit_code := 0\<rparr>))"

section \<open>Rule trigger conditions\<close>

text \<open>
  The conditions of the five rules, stated on their own so that the engine can be compared
  with them.  \<open>exceeds v t\<close>: the metric \<open>v\<close> is present and strictly greater than \<open>t\<close>
  (NaN is greater than nothing, plus infinity than every finite threshold).
\<close>

fun exceeds :: "jsnum option \<Rightarrow> real \<Rightarrow> bool" where
  "exceeds (Some (Fin x)) t = (t < x)"
| "exceeds (Some PosInf) t = True"
| "exceeds v t = False"

definition trigger_performance :: "score_report \<Rightarrow> bool" where
  "trigger_performance m = exceeds (lcp_ms (metrics m)) 3500"

definition trigger_layout :: "score_report \<Rightarrow> bool" where
  "trigger_layout m = exceeds (cls (metrics m)) lit_0_1"

definition trigger_alt :: "scan_result \<Rightarrow> bool" where
  "trigger_alt s = (0 < missingAltCount s)"

definition trigger_images :: "scan_result \<Rightarrow> bool" where
  "trigger_images s =
     (25 < imageCount s \<and> int (lazyCount s) < \<lfloor>real (imageCount s) * (1 / 2)\<rfloor>)"

definition trigger_trust :: "scan_result \<Rightarrow> bool" where
  "trigger_trust s = (hasAddToCart s \<and> \<not> hasShippingText s)"

text \<open>The severity and the type of a finding.\<close>

definition label :: "finding \<Rightarrow> severity \<times> string" where
  "label f = (severity f, type f)"

definition labels :: "score_report \<Rightarrow> scan_result \<Rightarrow> (severity \<times> string) list" where
  "labels m s = map label (prioritizeFindings m s)"

text \<open>Inputs for the boundary cases: a report with given LCP and CLS, a scan with given counts.\<close>

definition no_lhr :: lhr where
  "no_lhr = \<lparr>categories = Map.empty, audits = Map.empty\<rparr>"

definition mobile_with :: "jsnum option \<Rightarrow> jsnum option \<Rightarrow> score_report" where
  "mobile_with l c =
     \<lparr>scores = \<lparr>performance = Fin 0, accessibility = Fin 0, bestPractices = Fin 0, seo = Fin 0\<rparr>,
      metrics = \<lparr>lcp_ms = l, cls = c, tbt_ms = None, speedIndex_ms = None\<rparr>,
      report = no_lhr\<rparr>"

definition scan_with :: "nat \<Rightarrow> nat \<Rightarrow> nat \<Rightarrow> bool \<Rightarrow> bool \<Rightarrow> scan_result" where
  "scan_with n a l cart ship =
     \<lparr>imageCount = n, missingAltCount = a, lazyCount = l, hasSearch = False,
      hasAddToCart = cart, hasPrice = False, hasShippingText = ship, images = []\<rparr>"

section \<open>Statements of the properties\<close>


text \<open>
  The add-to-cart signal in the words of the specification: the match set holds the
  elements that the selector matches and that have non-empty text content; the signal is
  true if the lower-cased, trimmed text of a matched button contains both words or if the
  match set is non-empty.
\<close>

definition spec_matched_buttons :: "node \<Rightarrow> node list" where
  "spec_matched_buttons doc =
     filter (\<lambda>b. textContent b \<noteq> []) (querySelectorAll sel_add_to_cart doc)"

definition spec_hasAddToCart :: "node \<Rightarrow> bool" where
  "spec_hasAddToCart doc =
     (let texts = map (\<lambda>b. toLowerCase (trim (textContent b))) (spec_matched_buttons doc)
      in list_ex (\<lambda>t. includes_str t ''add'' \<and> includes_str t ''cart'') texts \<or> texts \<noteq> [])"

text \<open>
  The measurement that underlies a metric: absent when the audit is missing or has no
  numeric value.  The score that underlies a score field is absent when its category has
  none.
\<close>

definition measurement :: "lhr \<Rightarrow> string \<Rightarrow> jsnum option" where
  "measurement l name = (case audits l name of None \<Rightarrow> None | Some a \<Rightarrow> numericValue a)"

definition score_absent :: "lhr \<Rightarrow> string \<Rightarrow> bool" where
  "score_absent l name = (case categories l name of None \<Rightarrow> False | Some c \<Rightarrow> score c = None)"

text \<open>
  A report follows the defaults: a score field is 0 where the score is absent, and each
  metric field is the measurement, hence null where the measurement is absent and 0 only
  where 0 was measured.
\<close>

definition score_defaults :: "lhr \<Rightarrow> score_report \<Rightarrow> bool" where
  "score_defaults l r =
     ((score_absent l ''performance'' \<longrightarrow> performance (scores r) = Fin 0) \<and>
      (score_absent l ''accessibility'' \<longrightarrow> accessibility (scores r) = Fin 0) \<and>
      (score_absent l ''best-practices'' \<longrightarrow> bestPractices (scores r) = Fin 0) \<and>
      (score_absent l ''seo'' \<longrightarrow> seo (scores r) = Fin 0) \<and>
      lcp_ms (metrics r) = measurement l ''largest-contentful-paint'' \<and>
      cls (metrics r) = measurement l ''cumulative-layout-shift'' \<and>
      tbt_ms (metrics r) = measurement l ''total-blocking-time'' \<and>
      speedIndex_ms (metrics r) = measurement l ''speed-index'')"

text \<open>One of the three concurrent calls for a page fails.\<close>

definition page_fails :: "page_env \<Rightarrow> bool" where
  "page_fails pe =
     (isl (runLighthouse (mobile_calls pe)) \<or> isl (runLighthouse (desktop_calls pe)) \<or>
      isl (scanPage (fetched pe)))"

text \<open>No call to the file system fails.\<close>

definition run_ok :: "env \<Rightarrow> bool" where
  "run_ok env = (mkdir_top env = None \<and> mkdir_main env = None \<and> write_json env = None \<and>
     write_html env = None)"

text \<open>The line that the \<^verbatim>\<open>catch\<close> block of the webhook sink logs.\<close>

definition webhook_log :: "error \<Rightarrow> string \<times> error" where
  "webhook_log e = (''Google Sheets webhook error:'', e)"

text \<open>A table row with the given contents of its cells.\<close>

definition row_of_cells :: "string list \<Rightarrow> string" where
  "row_of_cells cs =
     ''\<newline>    <tr>\<newline>'' @
     concat (map (\<lambda>c. ''      <td>'' @ c @ ''</td>\<newline>'') cs) @
     ''    </tr>\<newline>  ''"

text \<open>
  A page record with given mobile LCP and CLS, and the record in which each unmeasured one
  of the two is replaced by a measured 0.
\<close>

definition with_metrics :: "page_record \<Rightarrow> jsnum option \<Rightarrow> jsnum option \<Rightarrow> page_record" where
  "with_metrics p l c = p\<lparr>mobile := (mobile p)\<lparr>metrics := (metrics (mobile p))\<lparr>lcp_ms := l, cls := c\<rparr>\<rparr>\<rparr>"

definition zero_unmeasured :: "page_record \<Rightarrow> page_record" where
  "zero_unmeasured p =
     p\<lparr>mobile := (mobile p)\<lparr>metrics := (metrics (mobile p))
         \<lparr>lcp_ms := Some (js_nullish (lcp_ms (metrics (mobile p))) (Fin 0)),
          cls := Some (js_nullish (cls (metrics (mobile p))) (Fin 0))\<rparr>\<rparr>\<rparr>"

section \<open>Example inputs\<close>

text \<open>A page whose only button is a submit button that holds an icon and no text.\<close>

definition icon_button_page :: node where
  "icon_button_page =
     Element HTML ''html'' []
       [Element HTML ''head'' [] [],
        Element HTML ''body'' []
          [Element HTML ''button'' [(''type'', ''submit'')]
             [Element HTML ''img'' [(''src'', ''cart.svg'')] []]]]"

text \<open>
  The page \<^verbatim>\<open><svg><button type="SUBMIT">x</button></svg>\<close>, whose button is an SVG
  element, and the page \<^verbatim>\<open><button type="SUBMIT">x</button>\<close>, whose button is an HTML
  element.
\<close>

definition svg_button_page :: node where
  "svg_button_page =
     Element HTML ''html'' []
       [Element HTML ''head'' [] [],
        Element HTML ''body'' []
          [Element SVG ''svg'' []
             [Element SVG ''button'' [(''type'', ''SUBMIT'')] [Text ''x'']]]]"

definition upper_button_page :: node where
  "upper_button_page =
     Element HTML ''html'' []
       [Element HTML ''head'' [] [],
        Element HTML ''body'' [] [Element HTML ''button'' [(''type'', ''SUBMIT'')] [Text ''x'']]]"

text \<open>A page of \<open>n\<close> images.\<close>

definition gallery_page :: "nat \<Rightarrow> node" where
  "gallery_page n =
     Element HTML ''html'' []
       [Element HTML ''body'' [] (replicate n (Element HTML ''img'' [] []))]"

text \<open>
  A Lighthouse result with four categories without score, an LCP of 0, a blocking time
  without value and no other audit; the external outcomes of a call that returns it.
\<close>

definition unscored_lhr :: lhr where
  "unscored_lhr =
     \<lparr>categories =
        map_of [(''performance'', \<lparr>score = None\<rparr>), (''accessibility'', \<lparr>score = None\<rparr>),
                (''best-practices'', \<lparr>score = None\<rparr>), (''seo'', \<lparr>score = None\<rparr>)],
      audits =
        map_of [(''largest-contentful-paint'', \<lparr>numericValue = Some (Fin 0)\<rparr>),
                (''total-blocking-time'', \<lparr>numericValue = None\<rparr>)]\<rparr>"

definition good_lh :: lh_env where
  "good_lh = \<lparr>launch_result = None, lighthouse_result = Inr (Some unscored_lhr), kill_result = None\<rparr>"

text \<open>A page whose three calls succeed, and one whose fetch fails.\<close>

definition good_page :: page_env where
  "good_page = \<lparr>mobile_calls = good_lh, desktop_calls = good_lh, fetched = Inr icon_button_page\<rparr>"

definition bad_page :: page_env where
  "bad_page = good_page\<lparr>fetched := Inl (Error ''getaddrinfo ENOTFOUND'')\<rparr>"

text \<open>
  A run in which nothing fails and no webhook is configured, and the same run with a
  failing second page.
\<close>

definition good_env :: env where
  "good_env =
     \<lparr>now = ''2024-01-01T00:00:00.000Z'', page_env = (\<lambda>i. good_page), GS_WEBHOOK_URL = None,
      mkdir_top = None, mkdir_main = None, write_json = None, write_html = None,
      post_result = None\<rparr>"

definition bad_env :: env where
  "bad_env = good_env\<lparr>page_env := (\<lambda>i. if i = 1 then bad_page else good_page)\<rparr>"

text \<open>The run in which nothing fails, with a webhook configured.\<close>

definition hook_env :: env where
  "hook_env = good_env\<lparr>GS_WEBHOOK_URL := Some ''https://script.google.com/macros/s/id/exec''\<rparr>"

text \<open>A page record without mobile LCP and CLS.\<close>

definition unmeasured_page :: page_record where
  "unmeasured_page =
     \<lparr>url = ''https://gritarmy.com/'',
      mobile = \<lparr>scores = scores (mobile_with None None), metrics = metrics (mobile_with None None)\<rparr>,
      desktop = \<lparr>scores = scores (mobile_with None None), metrics = metrics (mobile_with None None)\<rparr>,
      scan = scan_with 0 0 0 False False,
      findings = []\<rparr>"

section \<open>Properties of the findings engine\<close>

lemma js_gt_exceeds: "js_gt v (Fin t) = exceeds (Some v) t"
  by (cases v) simp_all

lemma floor_half: "\<lfloor>real n * (1 / 2)\<rfloor> = int (n div 2)"
proof -
  have "real n * (1 / 2) = real n / real 2" by simp
  then show ?thesis by (simp only: floor_divide_of_nat_eq)
qed

lemma js_lt_floor:
  "js_lt (Fin (real l)) (Math_floor (Fin (real n * lit_0_5))) = (int l < \<lfloor>real n * (1 / 2)\<rfloor>)"
proof -
  have "(real l < real_of_int \<lfloor>real n * (1 / 2)\<rfloor>) = (int l < \<lfloor>real n * (1 / 2)\<rfloor>)"
    by (metis of_int_less_iff of_int_of_nat_eq)
  then show ?thesis by (simp add: js_lt_def lit_0_5_def)
qed

lemma label_finding: "label \<lparr>severity = a, type = b, recommendation = r\<rparr> = (a, b)"
  by (simp add: label_def)

lemma map_label_push:
  "map label (if c then xs @ [f] else xs) = map label xs @ (if c then [label f] else [])"
  by simp

lemma map_label_push_metric:
  "map label (case v of None \<Rightarrow> xs | Some x \<Rightarrow> if js_gt x (Fin t) then xs @ [F x] else xs) =
   map label xs @ (case v of None \<Rightarrow> [] | Some x \<Rightarrow> if exceeds v t then [label (F x)] else [])"
  by (simp add: js_gt_exceeds split: option.split)

lemma metric_labels:
  "(case v of None \<Rightarrow> [] | Some x \<Rightarrow> if exceeds v t then [l] else []) =
   (if exceeds v t then [l] else [])"
  by (cases v) simp_all

lemma labels_eq:
  "labels m s =
     (if trigger_performance m then [(HIGH, ''Performance'')] else []) @
     (if trigger_layout m then [(MED, ''UX / Layout'')] else []) @
     (if trigger_alt s then [(MED, ''Accessibility / SEO'')] else []) @
     (if trigger_images s then [(MED, ''Images'')] else []) @
     (if trigger_trust s then [(LOW, ''Trust / Conversion'')] else [])"
  unfolding labels_def prioritizeFindings_def Let_def trigger_performance_def trigger_layout_def
    trigger_alt_def trigger_images_def trigger_trust_def js_lt_floor
  apply (simp only: map_label_push map_label_push_metric)
  apply (simp only: label_finding metric_labels list.map append_Nil append_assoc)
  done


lemma performance_mem:
  "(HIGH, ''Performance'') \<in> set (labels m s) \<longleftrightarrow> trigger_performance m"
  by (simp add: labels_eq)

lemma layout_mem:
  "(MED, ''UX / Layout'') \<in> set (labels m s) \<longleftrightarrow> trigger_layout m"
  by (simp add: labels_eq)

lemma images_mem:
  "(MED, ''Images'') \<in> set (labels m s) \<longleftrightarrow> trigger_images s"
  by (simp add: labels_eq)

text \<open>
  Claim C1.  An input that satisfies all five trigger conditions yields exactly five
  findings, labelled HIGH Performance, MED UX / Layout, MED Accessibility / SEO, MED Images
  and LOW Trust / Conversion, in this order.  For every input, each rule contributes one
  finding or none and the findings stand in the order in which the rules are evaluated;
  an input that triggers no rule yields the empty list.
\<close>

theorem prioritizeFindings_rule_order:
  "(trigger_performance m \<and> trigger_layout m \<and> trigger_alt s \<and> trigger_images s \<and> trigger_trust s
      \<longrightarrow> labels m s =
            [(HIGH, ''Performance''), (MED, ''UX / Layout''), (MED, ''Accessibility / SEO''),
             (MED, ''Images''), (LOW, ''Trust / Conversion'')]) \<and>
   labels m s =
     (if trigger_performance m then [(HIGH, ''Performance'')] else []) @
     (if trigger_layout m then [(MED, ''UX / Layout'')] else []) @
     (if trigger_alt s then [(MED, ''Accessibility / SEO'')] else []) @
     (if trigger_images s then [(MED, ''Images'')] else []) @
     (if trigger_trust s then [(LOW, ''Trust / Conversion'')] else []) \<and>
   (\<not> trigger_performance m \<and> \<not> trigger_layout m \<and> \<not> trigger_alt s \<and> \<not> trigger_images s \<and>
    \<not> trigger_trust s \<longrightarrow> prioritizeFindings m s = [])"
proof (intro conjI impI)
  assume "trigger_performance m \<and> trigger_layout m \<and> trigger_alt s \<and> trigger_images s \<and> trigger_trust s"
  then show "labels m s =
      [(HIGH, ''Performance''), (MED, ''UX / Layout''), (MED, ''Accessibility / SEO''),
       (MED, ''Images''), (LOW, ''Trust / Conversion'')]"
    by (simp only: labels_eq if_True append_Cons append_Nil)
next
  show "labels m s =
     (if trigger_performance m then [(HIGH, ''Performance'')] else []) @
     (if trigger_layout m then [(MED, ''UX / Layout'')] else []) @
     (if trigger_alt s then [(MED, ''Accessibility / SEO'')] else []) @
     (if trigger_images s then [(MED, ''Images'')] else []) @
     (if trigger_trust s then [(LOW, ''Trust / Conversion'')] else [])"
    by (rule labels_eq)
next
  assume "\<not> trigger_performance m \<and> \<not> trigger_layout m \<and> \<not> trigger_alt s \<and> \<not> trigger_images s \<and>
    \<not> trigger_trust s"
  then have "labels m s = []"
    by (simp only: labels_eq if_False append_Nil)
  then show "prioritizeFindings m s = []"
    by (simp only: labels_def map_is_Nil_conv)
qed

theorem prioritizeFindings_rule_order_witness:
  "labels (mobile_with (Some (Fin 4000)) (Some (Fin (1 / 4)))) (scan_with 30 2 10 True False) =
     [(HIGH, ''Performance''), (MED, ''UX / Layout''), (MED, ''Accessibility / SEO''),
      (MED, ''Images''), (LOW, ''Trust / Conversion'')] \<and>
   prioritizeFindings (mobile_with (Some (Fin 1000)) (Some (Fin (1 / 100)))) (scan_with 0 0 0 False False) = []"
  using prioritizeFindings_rule_order
          [of "mobile_with (Some (Fin 4000)) (Some (Fin (1 / 4)))" "scan_with 30 2 10 True False"]
        prioritizeFindings_rule_order
          [of "mobile_with (Some (Fin 1000)) (Some (Fin (1 / 100)))" "scan_with 0 0 0 False False"]
  by (simp add: trigger_performance_def trigger_layout_def trigger_alt_def trigger_images_def
        trigger_trust_def mobile_with_def scan_with_def lit_0_1_def)

subsection \<open>The literals\<close>

text \<open>
  The constants \<open>lit_0_1\<close> and \<open>lit_0_1001\<close> are the binary64 values nearest to the decimal
  numbers that the literals \<^verbatim>\<open>0.1\<close> and \<^verbatim>\<open>0.1001\<close> write.
\<close>

lemma pow2_powr: "pow2 e = 2 powr real_of_int e"
proof (cases "0 \<le> e")
  case True
  then have "2 powr real_of_int e = 2 powr real (nat e)" by simp
  also have "\<dots> = 2 ^ nat e" by (simp add: powr_realpow)
  finally show ?thesis using True by (simp add: pow2_def)
next
  case False
  then have "2 powr real_of_int e = 2 powr (- real (nat (- e)))" by simp
  also have "\<dots> = 1 / 2 ^ nat (- e)" by (simp add: powr_minus powr_realpow divide_inverse)
  finally show ?thesis using False by (simp add: pow2_def)
qed

lemma pow2_mono: "a \<le> b \<Longrightarrow> pow2 a \<le> pow2 b"
  by (simp add: pow2_powr)

lemma find_exp_eq:
  "pow2 e \<le> a \<Longrightarrow> a < pow2 (e + 1) \<Longrightarrow> - 1022 < e \<Longrightarrow> e \<le> int m - 1022 \<Longrightarrow> find_exp m a = e"
proof (induction m)
  case 0
  then show ?case by simp
next
  case (Suc m)
  show ?case
  proof (cases "pow2 (int (Suc m) - 1022) \<le> a")
    case True
    have "\<not> e + 1 \<le> int (Suc m) - 1022"
    proof
      assume "e + 1 \<le> int (Suc m) - 1022"
      then have "pow2 (e + 1) \<le> pow2 (int (Suc m) - 1022)" by (rule pow2_mono)
      with True Suc.prems(2) show False by simp
    qed
    with Suc.prems(4) have "e = int (Suc m) - 1022" by simp
    with True show ?thesis by simp
  next
    case False
    have "e \<noteq> int (Suc m) - 1022" using False Suc.prems(1) by auto
    with Suc.prems(4) have "e \<le> int m - 1022" by simp
    with Suc False show ?thesis by simp
  qed
qed

lemma lit_0_1_nearest: "fl64 (1 / 10) = Fin lit_0_1"
proof -
  have e: "find_exp 2045 (1 / 10) = - 4"
    by (rule find_exp_eq) (simp_all add: pow2_def)
  show ?thesis
    by (simp add: fl64_def e Let_def pow2_def round_ties_even_def lit_0_1_def)
qed

lemma lit_0_1001_nearest: "fl64 (1001 / 10000) = Fin lit_0_1001"
proof -
  have e: "find_exp 2045 (1001 / 10000) = - 4"
    by (rule find_exp_eq) (simp_all add: pow2_def)
  show ?thesis
    by (simp add: fl64_def e Let_def pow2_def round_ties_even_def lit_0_1001_def)
qed

text \<open>
  Claim C2.  The Performance finding is produced iff \<open>lcp_ms\<close> is present and strictly
  greater than 3500: not for null, not for 3500, but for 3501.  The UX / Layout finding is
  produced iff \<open>cls\<close> is present and strictly greater than the literal \<^verbatim>\<open>0.1\<close>: not for
  null, not for the literal \<^verbatim>\<open>0.1\<close> nor for one tenth, but for the literal \<^verbatim>\<open>0.1001\<close> and
  for the real number 0.1001.  The values of the two literals are the binary64 values
  nearest to the decimal numbers.
\<close>

theorem performance_layout_thresholds:
  "((HIGH, ''Performance'') \<in> set (labels m s) \<longleftrightarrow> exceeds (lcp_ms (metrics m)) 3500) \<and>
   ((MED, ''UX / Layout'') \<in> set (labels m s) \<longleftrightarrow> exceeds (cls (metrics m)) lit_0_1) \<and>
   (HIGH, ''Performance'') \<notin> set (labels (mobile_with None c) s) \<and>
   (HIGH, ''Performance'') \<notin> set (labels (mobile_with (Some (Fin 3500)) c) s) \<and>
   (HIGH, ''Performance'') \<in> set (labels (mobile_with (Some (Fin 3501)) c) s) \<and>
   (MED, ''UX / Layout'') \<notin> set (labels (mobile_with l None) s) \<and>
   (MED, ''UX / Layout'') \<notin> set (labels (mobile_with l (Some (Fin lit_0_1))) s) \<and>
   (MED, ''UX / Layout'') \<notin> set (labels (mobile_with l (Some (Fin (1 / 10)))) s) \<and>
   (MED, ''UX / Layout'') \<in> set (labels (mobile_with l (Some (Fin lit_0_1001))) s) \<and>
   (MED, ''UX / Layout'') \<in> set (labels (mobile_with l (Some (Fin (1001 / 10000)))) s) \<and>
   fl64 (1 / 10) = Fin lit_0_1 \<and> fl64 (1001 / 10000) = Fin lit_0_1001"
  by (simp add: performance_mem layout_mem trigger_performance_def trigger_layout_def
        mobile_with_def lit_0_1_nearest lit_0_1001_nearest)
    (simp add: lit_0_1_def lit_0_1001_def)

theorem performance_layout_thresholds_witness:
  "(HIGH, ''Performance'') \<in> set (labels (mobile_with (Some (Fin 3501)) (Some (Fin lit_0_1))) (scan_with 0 0 0 False False)) \<and>
   (MED, ''UX / Layout'') \<notin> set (labels (mobile_with (Some (Fin 3501)) (Some (Fin lit_0_1))) (scan_with 0 0 0 False False))"
  using performance_layout_thresholds
          [of "mobile_with (Some (Fin 3501)) (Some (Fin lit_0_1))" "scan_with 0 0 0 False False"]
  by (simp add: mobile_with_def)

lemma floor_half2: "\<lfloor>real n / 2\<rfloor> = int (n div 2)"
  using floor_half [of n] by simp

text \<open>
  Claim C3.  The Images finding is produced iff \<open>imageCount > 25\<close> and
  \<open>lazyCount < floor (imageCount * 0.5)\<close>, the floor being \<open>imageCount div 2\<close>; it is produced
  for 26 images of which 12 are lazy and not for 26 images of which 13 are lazy.
\<close>

theorem images_rule_boundary:
  "((MED, ''Images'') \<in> set (labels m s) \<longleftrightarrow>
      25 < imageCount s \<and> int (lazyCount s) < \<lfloor>real (imageCount s) * (1 / 2)\<rfloor>) \<and>
   \<lfloor>real (imageCount s) * (1 / 2)\<rfloor> = int (imageCount s div 2) \<and>
   (MED, ''Images'') \<in> set (labels m (scan_with 26 a 12 cart ship)) \<and>
   (MED, ''Images'') \<notin> set (labels m (scan_with 26 a 13 cart ship))"
proof (intro conjI)
  show "(MED, ''Images'') \<in> set (labels m s) \<longleftrightarrow>
      25 < imageCount s \<and> int (lazyCount s) < \<lfloor>real (imageCount s) * (1 / 2)\<rfloor>"
    by (simp only: images_mem trigger_images_def)
  show "\<lfloor>real (imageCount s) * (1 / 2)\<rfloor> = int (imageCount s div 2)"
    by (rule floor_half)
  show "(MED, ''Images'') \<in> set (labels m (scan_with 26 a 12 cart ship))"
    by (simp add: images_mem trigger_images_def scan_with_def floor_half2)
  show "(MED, ''Images'') \<notin> set (labels m (scan_with 26 a 13 cart ship))"
    by (simp add: images_mem trigger_images_def scan_with_def floor_half2)
qed

theorem images_rule_boundary_witness:
  "(MED, ''Images'') \<in> set (labels (mobile_with None None) (scan_with 26 0 12 False False)) \<and>
   (MED, ''Images'') \<notin> set (labels (mobile_with None None) (scan_with 26 0 13 False False)) \<and>
   (MED, ''Images'') \<notin> set (labels (mobile_with None None) (scan_with 25 0 0 False False))"
  using images_rule_boundary [of "mobile_with None None" "scan_with 25 0 0 False False" 0 False False]
  by (simp add: scan_with_def floor_half2)

section \<open>Properties of the page scanner\<close>

text \<open>
  The fuel of \<open>trimStart\<close> and \<open>trimEnd\<close> suffices: what they return neither starts
  nor ends with a white space character.
\<close>

lemma white_space_nonempty: "w \<in> set white_space \<Longrightarrow> w \<noteq> []"
  by (auto simp add: white_space_def)

lemma drop_space_done:
  "length s \<le> f \<Longrightarrow> find (\<lambda>w. prefix w (drop_space f s)) white_space = None"
proof (induction f arbitrary: s)
  case 0
  then have "s = []" by simp
  then show ?case
    using white_space_nonempty by (auto simp add: find_None_iff)
next
  case (Suc f)
  show ?case
  proof (cases "find (\<lambda>w. prefix w s) white_space")
    case None
    then show ?thesis by simp
  next
    case (Some w)
    then have "w \<in> set white_space" and "prefix w s"
      by (auto simp add: find_Some_iff)
    then have "w \<noteq> []" and "length w \<le> length s"
      using white_space_nonempty by (auto simp add: prefix_length_le)
    then have "length (drop (length w) s) \<le> f"
      using Suc.prems by (cases w) auto
    from Suc.IH [OF this] show ?thesis
      by (simp add: Some)
  qed
qed

lemma trimStart_done: "\<not> (\<exists>w \<in> set white_space. prefix w (trimStart s))"
  using drop_space_done [of s "length s"] by (simp add: trimStart_def find_None_iff)

lemma chop_space_done:
  "length s \<le> f \<Longrightarrow> find (\<lambda>w. suffix w (chop_space f s)) white_space = None"
proof (induction f arbitrary: s)
  case 0
  then have "s = []" by simp
  then show ?case
    using white_space_nonempty by (auto simp add: find_None_iff)
next
  case (Suc f)
  show ?case
  proof (cases "find (\<lambda>w. suffix w s) white_space")
    case None
    then show ?thesis by simp
  next
    case (Some w)
    then have "w \<in> set white_space" and "suffix w s"
      by (auto simp add: find_Some_iff)
    then have "w \<noteq> []" and "length w \<le> length s"
      using white_space_nonempty by (auto simp add: suffix_length_le)
    then have "length (take (length s - length w) s) \<le> f"
      using Suc.prems by (cases w) auto
    from Suc.IH [OF this] show ?thesis
      by (simp add: Some)
  qed
qed

lemma trimEnd_done: "\<not> (\<exists>w \<in> set white_space. suffix w (trimEnd s))"
  using chop_space_done [of s "length s"] by (simp add: trimEnd_def find_None_iff)


lemma scan_fields:
  "imageCount (scan_document doc) = length (all_images doc)"
  "missingAltCount (scan_document doc) = length (filter missing_alt (all_images doc))"
  "lazyCount (scan_document doc) = length (filter is_lazy (all_images doc))"
  "images (scan_document doc) = take 40 (all_images doc)"
  "hasAddToCart (scan_document doc) =
     (list_ex (\<lambda>t. includes_str t ''add'' \<and> includes_str t ''cart'') (addToCartButtons doc) \<or>
      length (addToCartButtons doc) > 0)"
  by (simp_all add: scan_document_def Let_def)



lemma matched_iff:
  "hasAddToCart (scan_document doc) \<longleftrightarrow> querySelectorAll sel_add_to_cart doc \<noteq> []"
  by (auto simp add: scan_fields addToCartButtons_def list_ex_iff)

text \<open>
  Claim C5, as stated, fails.  On the page whose only button is a submit button without
  text, the scanner reports an add-to-cart button, whereas the match set restricted to
  the elements with non-empty text content is empty.
\<close>

theorem hasAddToCart_as_claimed_counterexample:
  "\<not> (hasAddToCart (scan_document icon_button_page) \<longleftrightarrow> spec_hasAddToCart icon_button_page) \<and>
   hasAddToCart (scan_document icon_button_page) \<and> \<not> spec_hasAddToCart icon_button_page"
  by (simp add: matched_iff spec_hasAddToCart_def spec_matched_buttons_def icon_button_page_def
      querySelectorAll_def sel_add_to_cart_def attr_is_ci_def attr_is_def attr_contains_def)

text \<open>
  Claim C5, amended.  \<open>hasAddToCart\<close> is true iff, over the match set of all elements that
  are a button inside a form whose action contains \<^verbatim>\<open>cart/add\<close>, or a button named
  \<^verbatim>\<open>add\<close>, or a button that the selector \<^verbatim>\<open>button[type='submit']\<close> matches, whatever their
  text content: the lower-cased, trimmed text of some matched button contains both
  \<^verbatim>\<open>add\<close> and \<^verbatim>\<open>cart\<close>, or the match set is non-empty at all.  That is, iff the document
  has such a button.  The selector compares the type with \<^verbatim>\<open>submit\<close> without regard to
  ASCII case on an HTML element and exactly on an element of another namespace: a page
  whose only button is an HTML button of type \<^verbatim>\<open>SUBMIT\<close> has the signal, a page whose only
  button is an SVG button of type \<^verbatim>\<open>SUBMIT\<close> has not.
\<close>

theorem hasAddToCart_any_matched_button:
  "(hasAddToCart (scan_document doc) \<longleftrightarrow>
      list_ex (\<lambda>t. includes_str t ''add'' \<and> includes_str t ''cart'')
        (map (\<lambda>b. toLowerCase (trim (textContent b))) (querySelectorAll sel_add_to_cart doc)) \<or>
      querySelectorAll sel_add_to_cart doc \<noteq> []) \<and>
   (hasAddToCart (scan_document doc) \<longleftrightarrow>
      list_ex (\<lambda>(anc, e).
          localName e = ''button'' \<and>
          (list_ex (\<lambda>f. localName f = ''form'' \<and> attr_contains ''action'' ''cart/add'' f) anc \<or>
           getAttribute e ''name'' = Some ''add'' \<or>
           (html_element e \<and>
            (case getAttribute e ''type'' of None \<Rightarrow> False
             | Some a \<Rightarrow> map lower_char a = ''submit'')) \<or>
           (\<not> html_element e \<and> getAttribute e ''type'' = Some ''submit'')))
        (walk [] doc)) \<and>
   hasAddToCart (scan_document upper_button_page) \<and>
   \<not> hasAddToCart (scan_document svg_button_page)"
proof (intro conjI)
  show "hasAddToCart (scan_document doc) \<longleftrightarrow>
      list_ex (\<lambda>t. includes_str t ''add'' \<and> includes_str t ''cart'')
        (map (\<lambda>b. toLowerCase (trim (textContent b))) (querySelectorAll sel_add_to_cart doc)) \<or>
      querySelectorAll sel_add_to_cart doc \<noteq> []"
    by (auto simp add: matched_iff)
  have ci: "attr_is_ci ''type'' ''submit'' e \<longleftrightarrow>
      (html_element e \<and>
       (case getAttribute e ''type'' of None \<Rightarrow> False | Some a \<Rightarrow> map lower_char a = ''submit'')) \<or>
      (\<not> html_element e \<and> getAttribute e ''type'' = Some ''submit'')" for e
    by (auto simp add: attr_is_ci_def lower_char_def split: option.splits)
  show "hasAddToCart (scan_document doc) \<longleftrightarrow>
      list_ex (\<lambda>(anc, e).
          localName e = ''button'' \<and>
          (list_ex (\<lambda>f. localName f = ''form'' \<and> attr_contains ''action'' ''cart/add'' f) anc \<or>
           getAttribute e ''name'' = Some ''add'' \<or>
           (html_element e \<and>
            (case getAttribute e ''type'' of None \<Rightarrow> False
             | Some a \<Rightarrow> map lower_char a = ''submit'')) \<or>
           (\<not> html_element e \<and> getAttribute e ''type'' = Some ''submit'')))
        (walk [] doc)"
    unfolding matched_iff querySelectorAll_def sel_add_to_cart_def ci attr_is_def
    by (auto simp add: list_ex_iff filter_empty_conv)
  show "hasAddToCart (scan_document upper_button_page)"
    by code_simp
  show "\<not> hasAddToCart (scan_document svg_button_page)"
    by code_simp
qed

theorem hasAddToCart_any_matched_button_witness:
  "hasAddToCart (scan_document icon_button_page)"
  using hasAddToCart_any_matched_button [of icon_button_page]
  by (simp add: icon_button_page_def querySelectorAll_def sel_add_to_cart_def attr_is_ci_def
      attr_is_def attr_contains_def)

lemma concat_replicate_single: "concat (replicate n [x]) = replicate n x"
  by (induction n) simp_all

lemma gallery_images:
  "querySelectorAll sel_img (gallery_page n) = replicate n (Element HTML ''img'' [] [])"
  by (simp add: gallery_page_def querySelectorAll_def sel_img_def concat_replicate_single)

lemma gallery_count: "length (all_images (gallery_page n)) = n"
  by (simp add: all_images_def gallery_images)

text \<open>
  Claim C6.  The \<open>images\<close> of a scan result are the first 40 image records in document
  order, hence at most 40, while \<open>imageCount\<close>, \<open>missingAltCount\<close> and \<open>lazyCount\<close> count
  over all images of the document; for a page of 41 images \<open>imageCount\<close> is 41 and
  \<open>images\<close> has 40 entries.
\<close>

theorem images_truncated_counts_full:
  "length (images (scan_document doc)) \<le> 40 \<and>
   images (scan_document doc) = take 40 (map image_of (querySelectorAll sel_img doc)) \<and>
   imageCount (scan_document doc) = length (querySelectorAll sel_img doc) \<and>
   missingAltCount (scan_document doc) =
     length (filter missing_alt (map image_of (querySelectorAll sel_img doc))) \<and>
   lazyCount (scan_document doc) =
     length (filter is_lazy (map image_of (querySelectorAll sel_img doc))) \<and>
   imageCount (scan_document (gallery_page 41)) = 41 \<and>
   length (images (scan_document (gallery_page 41))) = 40"
  by (simp add: scan_fields gallery_count) (simp add: all_images_def)

theorem images_truncated_counts_full_witness:
  "length (images (scan_document (gallery_page 41))) \<le> 40 \<and>
   imageCount (scan_document (gallery_page 41)) = 41"
  using images_truncated_counts_full [of "gallery_page 41"] by simp

section \<open>Properties of the scorer adapter\<close>

lemma audit_value_measurement: "audit_value l name = measurement l name"
proof (cases "audits l name")
  case None
  then show ?thesis by (simp add: audit_value_def measurement_def)
next
  case (Some a)
  then show ?thesis by (cases "numericValue a") (simp_all add: audit_value_def measurement_def)
qed

lemma category_score_Inr:
  "category_score l name = Inr v \<Longrightarrow> \<exists>c. categories l name = Some c \<and> (score c = None \<longrightarrow> v = Fin 0)"
  by (auto simp add: category_score_def fl64_def split: option.splits)

lemma score_report_of_Inr:
  assumes "score_report_of l = Inr r"
  shows "\<exists>cp ca cb cs.
     categories l ''performance'' = Some cp \<and> categories l ''accessibility'' = Some ca \<and>
     categories l ''best-practices'' = Some cb \<and> categories l ''seo'' = Some cs \<and>
     (score cp = None \<longrightarrow> performance (scores r) = Fin 0) \<and>
     (score ca = None \<longrightarrow> accessibility (scores r) = Fin 0) \<and>
     (score cb = None \<longrightarrow> bestPractices (scores r) = Fin 0) \<and>
     (score cs = None \<longrightarrow> seo (scores r) = Fin 0) \<and>
     lcp_ms (metrics r) = measurement l ''largest-contentful-paint'' \<and>
     cls (metrics r) = measurement l ''cumulative-layout-shift'' \<and>
     tbt_ms (metrics r) = measurement l ''total-blocking-time'' \<and>
     speedIndex_ms (metrics r) = measurement l ''speed-index'' \<and>
     report r = l"
proof -
  from assms obtain p a b q where
    p: "category_score l ''performance'' = Inr p" and
    a: "category_score l ''accessibility'' = Inr a" and
    b: "category_score l ''best-practices'' = Inr b" and
    q: "category_score l ''seo'' = Inr q" and
    r: "r = \<lparr>scores = \<lparr>performance = p, accessibility = a, bestPractices = b, seo = q\<rparr>,
             metrics =
               \<lparr>lcp_ms = audit_value l ''largest-contentful-paint'',
                cls = audit_value l ''cumulative-layout-shift'',
                tbt_ms = audit_value l ''total-blocking-time'',
                speedIndex_ms = audit_value l ''speed-index''\<rparr>,
             report = l\<rparr>"
    by (auto simp add: score_report_of_def split: sum.splits)
  from category_score_Inr [OF p] category_score_Inr [OF a] category_score_Inr [OF b]
    category_score_Inr [OF q]
  show ?thesis
    by (auto simp add: r audit_value_measurement)
qed

lemma runLighthouse_Inr:
  "runLighthouse env = Inr r \<Longrightarrow>
     launch_result env = None \<and> kill_result env = None \<and>
     (\<exists>l. lighthouse_result env = Inr (Some l) \<and> score_report_of l = Inr r)"
  by (auto simp add: runLighthouse_def Let_def split: option.splits sum.splits)

lemma runLighthouse_ok:
  "launch_result env = None \<Longrightarrow> kill_result env = None \<Longrightarrow> lighthouse_result env = Inr (Some l) \<Longrightarrow>
     runLighthouse env = score_report_of l"
  by (simp add: runLighthouse_def)

lemma score_defaults_of:
  "score_report_of l = Inr r \<Longrightarrow> score_defaults l r \<and> report r = l"
  using score_report_of_Inr [of l r] by (auto simp add: score_defaults_def score_absent_def)

lemma good_lh_report:
  "runLighthouse good_lh =
     Inr \<lparr>scores = \<lparr>performance = Fin 0, accessibility = Fin 0, bestPractices = Fin 0, seo = Fin 0\<rparr>,
          metrics = \<lparr>lcp_ms = Some (Fin 0), cls = None, tbt_ms = None, speedIndex_ms = None\<rparr>,
          report = unscored_lhr\<rparr>"
  by (simp add: runLighthouse_def good_lh_def score_report_of_def category_score_def audit_value_def
      unscored_lhr_def fl64_def)

text \<open>
  Claim C7.  Every report that \<^verbatim>\<open>runLighthouse\<close> returns comes from a Lighthouse result
  and follows the defaults: each score field is 0 when the score of its category is
  absent, and each metric field equals the underlying measurement, so it is null, not 0,
  when the measurement is absent, and 0 when 0 was measured.  A report is returned
  whenever the external calls succeed and the four categories are present.
\<close>

theorem score_report_defaults:
  "(runLighthouse env = Inr r \<longrightarrow>
      (\<exists>l. lighthouse_result env = Inr (Some l) \<and> report r = l \<and> score_defaults l r)) \<and>
   (launch_result env = None \<and> kill_result env = None \<and> lighthouse_result env = Inr (Some l) \<and>
    categories l ''performance'' \<noteq> None \<and> categories l ''accessibility'' \<noteq> None \<and>
    categories l ''best-practices'' \<noteq> None \<and> categories l ''seo'' \<noteq> None \<longrightarrow>
      (\<exists>r. runLighthouse env = Inr r \<and> score_defaults l r))"
proof (rule conjI; rule impI)
  assume "runLighthouse env = Inr r"
  then obtain l where "lighthouse_result env = Inr (Some l)" "score_report_of l = Inr r"
    using runLighthouse_Inr by blast
  then show "\<exists>l. lighthouse_result env = Inr (Some l) \<and> report r = l \<and> score_defaults l r"
    using score_defaults_of by blast
next
  assume a: "launch_result env = None \<and> kill_result env = None \<and> lighthouse_result env = Inr (Some l) \<and>
    categories l ''performance'' \<noteq> None \<and> categories l ''accessibility'' \<noteq> None \<and>
    categories l ''best-practices'' \<noteq> None \<and> categories l ''seo'' \<noteq> None"
  then have "runLighthouse env = score_report_of l"
    by (simp add: runLighthouse_ok)
  moreover from a have "\<exists>r. score_report_of l = Inr r"
    by (auto simp add: score_report_of_def category_score_def)
  then obtain r where "score_report_of l = Inr r" ..
  ultimately show "\<exists>r. runLighthouse env = Inr r \<and> score_defaults l r"
    using score_defaults_of by auto
qed

theorem score_report_defaults_witness:
  "\<exists>r. runLighthouse good_lh = Inr r \<and> performance (scores r) = Fin 0 \<and> seo (scores r) = Fin 0 \<and>
       lcp_ms (metrics r) = Some (Fin 0) \<and> cls (metrics r) = None \<and> tbt_ms (metrics r) = None"
  using score_report_defaults [of good_lh "projr (runLighthouse good_lh)" unscored_lhr]
  by (simp add: good_lh_report score_defaults_def score_absent_def measurement_def)

section \<open>Properties of the renderer\<close>

lemma fixed_digits_zero: "fixed_digits 3 0 = ''0.000''"
  by (simp add: fixed_digits_def numeral_3_eq_3)

lemma join_concat: "join [] xs = concat xs"
  by (induction "[] :: string" xs rule: join.induct) simp_all

lemma sublist_concat: "x \<in> set xs \<Longrightarrow> sublist x (concat xs)"
proof -
  assume "x \<in> set xs"
  then obtain as bs where "xs = as @ x # bs"
    by (auto simp add: in_set_conv_decomp)
  then have "concat xs = concat as @ x @ concat bs"
    by simp
  then show ?thesis
    by (simp only: sublist_appendI)
qed

lemma sublist_skip: "sublist xs ys \<Longrightarrow> sublist xs (zs @ ys)"
  by (auto simp add: sublist_def) (metis append_assoc)

lemma sublist_here: "sublist (a @ b @ c) (a @ b @ c @ r)"
  by (metis append_assoc sublist_append_rightI)

lemma sublist_inside: "sublist xs b \<Longrightarrow> sublist xs (a @ b @ c)"
  by (meson sublist_appendI sublist_order.order.trans)

lemma table_row_cells:
  "table_row p =
     row_of_cells
       [url p,
        js_to_string (performance (scores (mobile p))),
        js_to_string (accessibility (scores (mobile p))),
        js_to_string (bestPractices (scores (mobile p))),
        js_to_string (seo (scores (mobile p))),
        (case lcp_ms (metrics (mobile p)) of None \<Rightarrow> ''0'' | Some v \<Rightarrow> js_to_string (Math_round v)),
        (case cls (metrics (mobile p)) of None \<Rightarrow> ''0.000'' | Some v \<Rightarrow> toFixed v 3)]"
proof -
  have l: "js_to_string (Math_round (js_nullish (lcp_ms (metrics (mobile p))) (Fin 0))) =
      (case lcp_ms (metrics (mobile p)) of None \<Rightarrow> ''0'' | Some v \<Rightarrow> js_to_string (Math_round v))"
    by (cases "lcp_ms (metrics (mobile p))") simp_all
  have c: "toFixed (js_nullish (cls (metrics (mobile p))) (Fin 0)) 3 =
      (case cls (metrics (mobile p)) of None \<Rightarrow> ''0.000'' | Some v \<Rightarrow> toFixed v 3)"
    by (cases "cls (metrics (mobile p))") (simp_all add: fixed_digits_zero)
  show ?thesis
    unfolding table_row_def row_of_cells_def l c by simp
qed

lemma table_row_unmeasured_cells:
  assumes "lcp_ms (metrics (mobile p)) = None" and "cls (metrics (mobile p)) = None"
  shows "table_row p =
     ''\<newline>    <tr>\<newline>      <td>'' @ url p @
     ''</td>\<newline>      <td>'' @ js_to_string (performance (scores (mobile p))) @
     ''</td>\<newline>      <td>'' @ js_to_string (accessibility (scores (mobile p))) @
     ''</td>\<newline>      <td>'' @ js_to_string (bestPractices (scores (mobile p))) @
     ''</td>\<newline>      <td>'' @ js_to_string (seo (scores (mobile p))) @
     ''</td>\<newline>      <td>0</td>\<newline>      <td>0.000</td>\<newline>    </tr>\<newline>  ''"
  unfolding table_row_cells row_of_cells_def assms by simp

lemma zero_unmeasured_fields:
  "url (zero_unmeasured p) = url p" "scores (mobile (zero_unmeasured p)) = scores (mobile p)"
  "findings (zero_unmeasured p) = findings p"
  by (simp_all add: zero_unmeasured_def)

lemma zero_unmeasured_cells:
  "js_nullish (lcp_ms (metrics (mobile (zero_unmeasured p)))) (Fin 0) =
     js_nullish (lcp_ms (metrics (mobile p))) (Fin 0)"
  "js_nullish (cls (metrics (mobile (zero_unmeasured p)))) (Fin 0) =
     js_nullish (cls (metrics (mobile p))) (Fin 0)"
  by (simp_all add: zero_unmeasured_def)

lemma table_row_unmeasured: "table_row (zero_unmeasured p) = table_row p"
  unfolding table_row_def by (simp only: zero_unmeasured_cells zero_unmeasured_fields)

lemma finding_item_unmeasured: "finding_item (zero_unmeasured p) = finding_item p"
  unfolding finding_item_def by (simp only: zero_unmeasured_fields)

lemma renderHtmlReport_unmeasured:
  "renderHtmlReport (rep\<lparr>pages := map zero_unmeasured (pages rep)\<rparr>) = renderHtmlReport rep"
proof -
  have p: "pages (rep\<lparr>pages := map zero_unmeasured (pages rep)\<rparr>) = map zero_unmeasured (pages rep)"
    and g: "generatedAt (rep\<lparr>pages := map zero_unmeasured (pages rep)\<rparr>) = generatedAt rep"
    by simp_all
  have r: "map table_row (map zero_unmeasured ps) = map table_row ps" for ps
    by (simp add: table_row_unmeasured)
  have f: "map (\<lambda>p. join [] (map (finding_item p) (findings p))) (map zero_unmeasured ps) =
      map (\<lambda>p. join [] (map (finding_item p) (findings p))) ps" for ps
    by (simp add: finding_item_unmeasured zero_unmeasured_fields)
  show ?thesis
    unfolding renderHtmlReport_def p g r f ..
qed

lemma renderHtmlReport_rows:
  "sublist (''    <tbody>'' @ concat (map table_row (pages rep)) @ ''</tbody>\<newline>'')
     (renderHtmlReport rep)"
  unfolding renderHtmlReport_def Let_def join_concat
  by (rule sublist_here | rule sublist_skip)+

lemma renderHtmlReport_unmeasured_cells:
  assumes "p \<in> set (pages rep)"
    and "lcp_ms (metrics (mobile p)) = None" and "cls (metrics (mobile p)) = None"
  shows "sublist ''      <td>0</td>\<newline>      <td>0.000</td>\<newline>    </tr>\<newline>''
     (renderHtmlReport rep)"
proof -
  have "table_row p =
     (''\<newline>    <tr>\<newline>      <td>'' @ url p @
      ''</td>\<newline>      <td>'' @ js_to_string (performance (scores (mobile p))) @
      ''</td>\<newline>      <td>'' @ js_to_string (accessibility (scores (mobile p))) @
      ''</td>\<newline>      <td>'' @ js_to_string (bestPractices (scores (mobile p))) @
      ''</td>\<newline>      <td>'' @ js_to_string (seo (scores (mobile p))) @
      ''</td>\<newline>'') @
     ''      <td>0</td>\<newline>      <td>0.000</td>\<newline>    </tr>\<newline>'' @ ''  ''"
    unfolding table_row_unmeasured_cells [OF assms(2,3)] by simp
  then have "sublist ''      <td>0</td>\<newline>      <td>0.000</td>\<newline>    </tr>\<newline>''
      (table_row p)"
    by (simp only: sublist_appendI)
  moreover have "sublist (table_row p) (concat (map table_row (pages rep)))"
    using assms(1) by (simp add: sublist_concat)
  ultimately have "sublist ''      <td>0</td>\<newline>      <td>0.000</td>\<newline>    </tr>\<newline>''
      (concat (map table_row (pages rep)))"
    by (rule sublist_order.order.trans)
  then have "sublist ''      <td>0</td>\<newline>      <td>0.000</td>\<newline>    </tr>\<newline>''
      (''    <tbody>'' @ concat (map table_row (pages rep)) @ ''</tbody>\<newline>'')"
    by (rule sublist_inside)
  then show ?thesis
    using renderHtmlReport_rows by (rule sublist_order.order.trans)
qed

text \<open>
  Claim C10.  The row of the summary table for a page record holds seven cells: the URL,
  the four mobile scores, the LCP cell and the CLS cell.  For a record whose mobile
  \<open>lcp_ms\<close> is null the LCP cell is \<^verbatim>\<open>0\<close>, and for one whose mobile \<open>cls\<close> is null the CLS
  cell is \<^verbatim>\<open>0.000\<close>; a measured 0 renders as \<^verbatim>\<open>0\<close> and \<^verbatim>\<open>0.000\<close> too, so the row, and the
  whole page, are the same as when each unmeasured metric is a measured 0.  The rendered
  page holds the rows of all pages between \<^verbatim>\<open><tbody>\<close> and \<^verbatim>\<open></tbody>\<close>, and so holds the
  cells \<^verbatim>\<open>0\<close> and \<^verbatim>\<open>0.000\<close> of every page without mobile LCP and CLS.
\<close>

theorem unmeasured_renders_as_zero:
  "table_row p =
     row_of_cells
       [url p,
        js_to_string (performance (scores (mobile p))),
        js_to_string (accessibility (scores (mobile p))),
        js_to_string (bestPractices (scores (mobile p))),
        js_to_string (seo (scores (mobile p))),
        (case lcp_ms (metrics (mobile p)) of None \<Rightarrow> ''0'' | Some v \<Rightarrow> js_to_string (Math_round v)),
        (case cls (metrics (mobile p)) of None \<Rightarrow> ''0.000'' | Some v \<Rightarrow> toFixed v 3)] \<and>
   (lcp_ms (metrics (mobile p)) = None \<and> cls (metrics (mobile p)) = None \<longrightarrow>
      table_row p =
        ''\<newline>    <tr>\<newline>      <td>'' @ url p @
        ''</td>\<newline>      <td>'' @ js_to_string (performance (scores (mobile p))) @
        ''</td>\<newline>      <td>'' @ js_to_string (accessibility (scores (mobile p))) @
        ''</td>\<newline>      <td>'' @ js_to_string (bestPractices (scores (mobile p))) @
        ''</td>\<newline>      <td>'' @ js_to_string (seo (scores (mobile p))) @
        ''</td>\<newline>      <td>0</td>\<newline>      <td>0.000</td>\<newline>    </tr>\<newline>  '') \<and>
   js_to_string (Math_round (Fin 0)) = ''0'' \<and>
   toFixed (Fin 0) 3 = ''0.000'' \<and>
   table_row (with_metrics p None None) = table_row (with_metrics p (Some (Fin 0)) (Some (Fin 0))) \<and>
   table_row (zero_unmeasured p) = table_row p \<and>
   sublist (''    <tbody>'' @ concat (map table_row (pages rep)) @ ''</tbody>\<newline>'')
     (renderHtmlReport rep) \<and>
   (p \<in> set (pages rep) \<and> lcp_ms (metrics (mobile p)) = None \<and> cls (metrics (mobile p)) = None \<longrightarrow>
      sublist ''      <td>0</td>\<newline>      <td>0.000</td>\<newline>    </tr>\<newline>''
        (renderHtmlReport rep)) \<and>
   renderHtmlReport (rep\<lparr>pages := map zero_unmeasured (pages rep)\<rparr>) = renderHtmlReport rep"
proof (intro conjI impI)
  show "js_to_string (Math_round (Fin 0)) = ''0''"
    by simp
  show "toFixed (Fin 0) 3 = ''0.000''"
    by (simp add: fixed_digits_zero)
  have "zero_unmeasured (with_metrics p None None) = with_metrics p (Some (Fin 0)) (Some (Fin 0))"
    by (simp add: zero_unmeasured_def with_metrics_def)
  then show "table_row (with_metrics p None None) = table_row (with_metrics p (Some (Fin 0)) (Some (Fin 0)))"
    using table_row_unmeasured [of "with_metrics p None None"] by simp
next
  assume "lcp_ms (metrics (mobile p)) = None \<and> cls (metrics (mobile p)) = None"
  then show "table_row p =
        ''\<newline>    <tr>\<newline>      <td>'' @ url p @
        ''</td>\<newline>      <td>'' @ js_to_string (performance (scores (mobile p))) @
        ''</td>\<newline>      <td>'' @ js_to_string (accessibility (scores (mobile p))) @
        ''</td>\<newline>      <td>'' @ js_to_string (bestPractices (scores (mobile p))) @
        ''</td>\<newline>      <td>'' @ js_to_string (seo (scores (mobile p))) @
        ''</td>\<newline>      <td>0</td>\<newline>      <td>0.000</td>\<newline>    </tr>\<newline>  ''"
    using table_row_unmeasured_cells [of p] by (elim conjE) assumption
next
  assume "p \<in> set (pages rep) \<and> lcp_ms (metrics (mobile p)) = None \<and> cls (metrics (mobile p)) = None"
  then show "sublist ''      <td>0</td>\<newline>      <td>0.000</td>\<newline>    </tr>\<newline>''
        (renderHtmlReport rep)"
    using renderHtmlReport_unmeasured_cells [of p rep] by (elim conjE) assumption
next
  show "table_row p =
     row_of_cells
       [url p,
        js_to_string (performance (scores (mobile p))),
        js_to_string (accessibility (scores (mobile p))),
        js_to_string (bestPractices (scores (mobile p))),
        js_to_string (seo (scores (mobile p))),
        (case lcp_ms (metrics (mobile p)) of None \<Rightarrow> ''0'' | Some v \<Rightarrow> js_to_string (Math_round v)),
        (case cls (metrics (mobile p)) of None \<Rightarrow> ''0.000'' | Some v \<Rightarrow> toFixed v 3)]"
    by (rule table_row_cells)
  show "table_row (zero_unmeasured p) = table_row p"
    by (rule table_row_unmeasured)
  show "sublist (''    <tbody>'' @ concat (map table_row (pages rep)) @ ''</tbody>\<newline>'')
     (renderHtmlReport rep)"
    by (rule renderHtmlReport_rows)
  show "renderHtmlReport (rep\<lparr>pages := map zero_unmeasured (pages rep)\<rparr>) = renderHtmlReport rep"
    by (rule renderHtmlReport_unmeasured)
qed

theorem unmeasured_renders_as_zero_witness:
  "table_row unmeasured_page =
     ''\<newline>    <tr>\<newline>      <td>https://gritarmy.com/</td>\<newline>      <td>0</td>\<newline>      <td>0</td>\<newline>      <td>0</td>\<newline>      <td>0</td>\<newline>      <td>0</td>\<newline>      <td>0.000</td>\<newline>    </tr>\<newline>  '' \<and>
   sublist ''      <td>0</td>\<newline>      <td>0.000</td>\<newline>    </tr>\<newline>''
     (renderHtmlReport \<lparr>generatedAt = ''2024-01-01T00:00:00.000Z'', pages = [unmeasured_page]\<rparr>)"
proof -
  note t = unmeasured_renders_as_zero
    [of unmeasured_page "\<lparr>generatedAt = ''2024-01-01T00:00:00.000Z'', pages = [unmeasured_page]\<rparr>"]
  have h: "lcp_ms (metrics (mobile unmeasured_page)) = None \<and>
      cls (metrics (mobile unmeasured_page)) = None"
    by (simp add: unmeasured_page_def mobile_with_def)
  have f: "url unmeasured_page = ''https://gritarmy.com/''"
    "performance (scores (mobile unmeasured_page)) = Fin 0"
    "accessibility (scores (mobile unmeasured_page)) = Fin 0"
    "bestPractices (scores (mobile unmeasured_page)) = Fin 0"
    "seo (scores (mobile unmeasured_page)) = Fin 0"
    by (simp_all add: unmeasured_page_def mobile_with_def)
  have m: "unmeasured_page \<in>
      set (pages \<lparr>generatedAt = ''2024-01-01T00:00:00.000Z'', pages = [unmeasured_page]\<rparr>)"
    by simp
  have r: "table_row unmeasured_page =
     ''\<newline>    <tr>\<newline>      <td>https://gritarmy.com/</td>\<newline>      <td>0</td>\<newline>      <td>0</td>\<newline>      <td>0</td>\<newline>      <td>0</td>\<newline>      <td>0</td>\<newline>      <td>0.000</td>\<newline>    </tr>\<newline>  ''"
    using t [THEN conjunct2, THEN conjunct1, THEN mp, OF h] by (simp add: f)
  have s: "sublist ''      <td>0</td>\<newline>      <td>0.000</td>\<newline>    </tr>\<newline>''
     (renderHtmlReport \<lparr>generatedAt = ''2024-01-01T00:00:00.000Z'', pages = [unmeasured_page]\<rparr>)"
    by (rule t [THEN conjunct2, THEN conjunct2, THEN conjunct2, THEN conjunct2, THEN conjunct2,
          THEN conjunct2, THEN conjunct2, THEN conjunct1, THEN mp, OF conjI [OF m h]])
  from r s show ?thesis by (rule conjI)
qed

section \<open>Properties of a run\<close>

lemma audit_page_fails: "isl (audit_page pe u) = page_fails pe"
  by (simp add: audit_page_def Promise_all_def page_fails_def split: sum.splits)

lemma audit_pages_keeps:
  "files (snd (audit_pages env xs rep w)) = files w \<and>
   posts (snd (audit_pages env xs rep w)) = posts w \<and>
   stderr (snd (audit_pages env xs rep w)) = stderr w \<and>
   exit_code (snd (audit_pages env xs rep w)) = exit_code w"
proof (induction xs arbitrary: rep w)
  case Nil
  show ?case by simp
next
  case (Cons x xs)
  obtain i u where x: "x = (i, u)" by (cases x)
  show ?case
  proof (cases "audit_page (page_env env i) u")
    case (Inl e)
    then show ?thesis by (simp add: x Let_def)
  next
    case (Inr p)
    then show ?thesis by (simp add: x Let_def Cons.IH)
  qed
qed

lemma audit_pages_all_ok:
  "\<forall>x \<in> set xs. \<not> page_fails (page_env env (fst x)) \<Longrightarrow>
   \<exists>rep'. audit_pages env xs rep w =
      (Inr rep', w\<lparr>stdout := stdout w @ map (\<lambda>x. ''Auditing: '' @ snd x) xs,
                   audited := audited w @ map snd xs\<rparr>) \<and>
      generatedAt rep' = generatedAt rep \<and>
      map url (pages rep') = map url (pages rep) @ map snd xs"
proof (induction xs arbitrary: rep w)
  case Nil
  show ?case by simp
next
  case (Cons x xs)
  obtain i u where x: "x = (i, u)" by (cases x)
  from Cons.prems have ok: "\<not> page_fails (page_env env i)"
    and rest: "\<forall>x \<in> set xs. \<not> page_fails (page_env env (fst x))"
    by (simp_all add: x)
  from ok obtain p where p: "audit_page (page_env env i) u = Inr p"
    using audit_page_fails [of "page_env env i" u] by (cases "audit_page (page_env env i) u") simp_all
  then have up: "url p = u"
    by (auto simp add: audit_page_def split: sum.splits)
  from Cons.IH [OF rest, of "rep\<lparr>pages := pages rep @ [p]\<rparr>"
      "w\<lparr>stdout := stdout w @ [''Auditing: '' @ u], audited := audited w @ [u]\<rparr>"]
  show ?case
    by (auto simp add: x p up Let_def)
qed

lemma audit_pages_failure:
  "k < length xs \<Longrightarrow> page_fails (page_env env (fst (xs ! k))) \<Longrightarrow>
   \<exists>e w' m. audit_pages env xs rep w = (Inl e, w') \<and> m \<le> Suc k \<and>
      audited w' = audited w @ map snd (take m xs)"
proof (induction xs arbitrary: rep w k)
  case Nil
  then show ?case by simp
next
  case (Cons x xs)
  obtain i u where x: "x = (i, u)" by (cases x)
  show ?case
  proof (cases "audit_page (page_env env i) u")
    case (Inl e)
    have "audit_pages env (x # xs) rep w =
        (Inl e, w\<lparr>stdout := stdout w @ [''Auditing: '' @ u], audited := audited w @ [u]\<rparr>)"
      by (simp add: x Inl)
    moreover have "audited (w\<lparr>stdout := stdout w @ [''Auditing: '' @ u], audited := audited w @ [u]\<rparr>) =
        audited w @ map snd (take 1 (x # xs))"
      by (simp add: x)
    ultimately show ?thesis
      by (metis Suc_le_mono le0 One_nat_def)
  next
    case (Inr p)
    then have "\<not> page_fails (page_env env i)"
      using audit_page_fails [of "page_env env i" u] by simp
    with Cons.prems obtain k' where k': "k = Suc k'"
      by (cases k) (simp_all add: x)
    with Cons.prems have "k' < length xs" "page_fails (page_env env (fst (xs ! k')))"
      by simp_all
    from Cons.IH [OF this, of "rep\<lparr>pages := pages rep @ [p]\<rparr>"
        "w\<lparr>stdout := stdout w @ [''Auditing: '' @ u], audited := audited w @ [u]\<rparr>"]
    obtain e w' m where
      r: "audit_pages env xs (rep\<lparr>pages := pages rep @ [p]\<rparr>)
            (w\<lparr>stdout := stdout w @ [''Auditing: '' @ u], audited := audited w @ [u]\<rparr>) = (Inl e, w')"
      and m: "m \<le> Suc k'"
      and a: "audited w' = (audited w @ [u]) @ map snd (take m xs)"
      by auto
    have "audit_pages env (x # xs) rep w = (Inl e, w')"
      using r by (simp add: x Inr)
    moreover have "Suc m \<le> Suc k" using m k' by simp
    moreover have "audited w' = audited w @ map snd (take (Suc m) (x # xs))"
      using a by (simp add: x)
    ultimately show ?thesis by blast
  qed
qed

lemma fst_enumerate_nth: "k < length us \<Longrightarrow> fst (enumerate n us ! k) = n + k"
  by (simp add: nth_enumerate_eq)

lemma map_snd_take_enumerate: "map snd (take m (enumerate n us)) = take m us"
  by (simp flip: take_map)

lemma set_enumerate_fst: "x \<in> set (enumerate 0 us) \<Longrightarrow> fst x < length us"
  by (auto simp add: in_set_enumerate_eq)

lemma run_aborts:
  assumes a: "i < length ps \<and> page_fails (page_env env i)"
  shows "prefix (audited (run_audit env ps)) (take (Suc i) ps) \<and>
      files (run_audit env ps) = [] \<and>
      posts (run_audit env ps) = [] \<and>
      exit_code (run_audit env ps) = 1"
proof (cases "mkdir_top env")
  case (Some e)
  then show ?thesis by (simp add: run_audit_def start_def)
next
  case None
  from a have "i < length (enumerate 0 ps)"
    and "page_fails (page_env env (fst (enumerate 0 ps ! i)))"
    by (simp_all add: fst_enumerate_nth)
  from audit_pages_failure [OF this, of "\<lparr>generatedAt = now env, pages = []\<rparr>" start]
  obtain e w' m where
    r: "audit_pages env (enumerate 0 ps) \<lparr>generatedAt = now env, pages = []\<rparr> start = (Inl e, w')"
    and m: "m \<le> Suc i"
    and au: "audited w' = audited start @ map snd (take m (enumerate 0 ps))"
    by blast
  have k: "files w' = []" "posts w' = []"
    using audit_pages_keeps [of env "enumerate 0 ps" "\<lparr>generatedAt = now env, pages = []\<rparr>" start]
    unfolding r by (simp_all add: start_def)
  have mn: "main env ps start = (Some e, w')"
    by (simp add: main_def r)
  have ra: "run_audit env ps = w'\<lparr>stderr := stderr w' @ [([], e)], exit_code := 1\<rparr>"
    by (simp add: run_audit_def None mn)
  have "take m ps = take m (take (Suc i) ps)"
    using m by (simp add: min_def)
  then have "prefix (take m ps) (take (Suc i) ps)"
    by (metis take_is_prefix)
  then show ?thesis
    using k au by (simp add: ra map_snd_take_enumerate start_def)
qed

lemma postToGoogleSheets_keeps:
  "stdout (postToGoogleSheets env rows w) = stdout w \<and>
   audited (postToGoogleSheets env rows w) = audited w \<and>
   files (postToGoogleSheets env rows w) = files w \<and>
   exit_code (postToGoogleSheets env rows w) = exit_code w"
  by (simp add: postToGoogleSheets_def Let_def split: option.split)

lemma run_succeeds:
  assumes a: "(\<forall>i < length ps. \<not> page_fails (page_env env i)) \<and> run_ok env"
  shows "exit_code (run_audit env ps) = 0 \<and>
      audited (run_audit env ps) = ps \<and>
      map fst (files (run_audit env ps)) = [''out/gritaudit-report.json'', ''out/gritaudit-report.html''] \<and>
      (GOOGLE_SHEETS_WEBHOOK_URL (GS_WEBHOOK_URL env) \<noteq> [] \<longrightarrow> posts (run_audit env ps) \<noteq> [])"
proof -
  from a have "\<forall>x \<in> set (enumerate 0 ps). \<not> page_fails (page_env env (fst x))"
    using set_enumerate_fst by blast
  from audit_pages_all_ok [OF this, of "\<lparr>generatedAt = now env, pages = []\<rparr>" start]
  obtain rep' w0 where
    r: "audit_pages env (enumerate 0 ps) \<lparr>generatedAt = now env, pages = []\<rparr> start = (Inr rep', w0)"
    and w0: "w0 = start\<lparr>stdout := stdout start @ map (\<lambda>x. ''Auditing: '' @ snd x) (enumerate 0 ps),
                   audited := audited start @ map snd (enumerate 0 ps)\<rparr>"
    by blast
  have au: "audited w0 = ps" and fi: "files w0 = []"
    by (simp_all add: w0 start_def)
  from a have ok: "mkdir_top env = None" "mkdir_main env = None" "write_json env = None"
    "write_html env = None"
    by (simp_all add: run_ok_def)
  define w1 where "w1 = w0\<lparr>files := files w0 @ [(''out/gritaudit-report.json'', Json rep')]\<rparr>"
  define w2 where "w2 = w1\<lparr>files := files w1 @ [(''out/gritaudit-report.html'', Html (renderHtmlReport rep'))]\<rparr>"
  define w3 where "w3 = postToGoogleSheets env (sheetRows rep') w2"
  have mn: "main env ps start = (None, w3\<lparr>stdout := stdout w3 @ [''Done. Reports in /out'']\<rparr>)"
    unfolding main_def Let_def r w3_def w2_def w1_def by (simp only: ok prod.case sum.case option.case)
  have ra: "run_audit env ps = w3\<lparr>stdout := stdout w3 @ [''Done. Reports in /out''], exit_code := 0\<rparr>"
    unfolding run_audit_def mn by (simp only: ok prod.case option.case)
  have "audited w3 = ps"
    by (simp add: w3_def postToGoogleSheets_keeps w2_def w1_def au)
  moreover have "map fst (files w3) = [''out/gritaudit-report.json'', ''out/gritaudit-report.html'']"
    by (simp add: w3_def postToGoogleSheets_keeps w2_def w1_def fi)
  moreover have "GOOGLE_SHEETS_WEBHOOK_URL (GS_WEBHOOK_URL env) \<noteq> [] \<longrightarrow> posts w3 \<noteq> []"
    by (simp add: w3_def postToGoogleSheets_def Let_def split: option.split)
  ultimately show ?thesis
    by (simp add: ra)
qed

lemma good_page_ok: "\<not> page_fails good_page"
  by (simp add: page_fails_def good_page_def good_lh_report scanPage_def)

lemma bad_page_fails: "page_fails bad_page"
  by (simp add: page_fails_def bad_page_def good_page_def scanPage_def)

text \<open>
  Claim C8.  If one of the three calls for the page at position \<open>i\<close> fails, no page record
  comes out for that page, the pages audited are a prefix of the first \<open>i + 1\<close> pages, no
  file is written, nothing is posted and the exit code is 1.  If no call for any page and
  no call to the file system fails, the exit code is 0, all pages are audited and the two
  report files are written.
\<close>

theorem failure_aborts_run:
  "(i < length ps \<and> page_fails (page_env env i) \<longrightarrow>
      isl (audit_page (page_env env i) (ps ! i)) \<and>
      prefix (audited (run_audit env ps)) (take (Suc i) ps) \<and>
      files (run_audit env ps) = [] \<and>
      posts (run_audit env ps) = [] \<and>
      exit_code (run_audit env ps) = 1) \<and>
   ((\<forall>i < length ps. \<not> page_fails (page_env env i)) \<and> run_ok env \<longrightarrow>
      exit_code (run_audit env ps) = 0 \<and>
      audited (run_audit env ps) = ps \<and>
      map fst (files (run_audit env ps)) = [''out/gritaudit-report.json'', ''out/gritaudit-report.html''])"
proof (rule conjI)
  show "i < length ps \<and> page_fails (page_env env i) \<longrightarrow>
      isl (audit_page (page_env env i) (ps ! i)) \<and>
      prefix (audited (run_audit env ps)) (take (Suc i) ps) \<and>
      files (run_audit env ps) = [] \<and>
      posts (run_audit env ps) = [] \<and>
      exit_code (run_audit env ps) = 1"
  proof
    assume a: "i < length ps \<and> page_fails (page_env env i)"
    then have "isl (audit_page (page_env env i) (ps ! i))"
      by (simp only: audit_page_fails)
    with run_aborts [OF a] show "isl (audit_page (page_env env i) (ps ! i)) \<and>
      prefix (audited (run_audit env ps)) (take (Suc i) ps) \<and>
      files (run_audit env ps) = [] \<and>
      posts (run_audit env ps) = [] \<and>
      exit_code (run_audit env ps) = 1"
      by (rule conjI [rotated])
  qed
  show "(\<forall>i < length ps. \<not> page_fails (page_env env i)) \<and> run_ok env \<longrightarrow>
      exit_code (run_audit env ps) = 0 \<and>
      audited (run_audit env ps) = ps \<and>
      map fst (files (run_audit env ps)) = [''out/gritaudit-report.json'', ''out/gritaudit-report.html'']"
    using run_succeeds [of ps env] by simp
qed

theorem failure_aborts_run_witness:
  "exit_code (run_audit bad_env [''https://a.example/'', ''https://b.example/'', ''https://c.example/'']) = 1 \<and>
   files (run_audit bad_env [''https://a.example/'', ''https://b.example/'', ''https://c.example/'']) = [] \<and>
   prefix (audited (run_audit bad_env [''https://a.example/'', ''https://b.example/'', ''https://c.example/'']))
     [''https://a.example/'', ''https://b.example/''] \<and>
   exit_code (run_audit good_env [''https://a.example/'', ''https://b.example/'', ''https://c.example/'']) = 0"
  using failure_aborts_run [of 1 "[''https://a.example/'', ''https://b.example/'', ''https://c.example/'']" bad_env]
    failure_aborts_run [of 0 "[''https://a.example/'', ''https://b.example/'', ''https://c.example/'']" good_env]
  by (simp add: bad_env_def good_env_def good_page_ok bad_page_fails run_ok_def)

lemma audit_pages_post_indep:
  "audit_pages (env\<lparr>post_result := x\<rparr>) xs rep w = audit_pages env xs rep w"
proof (induction xs arbitrary: rep w)
  case Nil
  show ?case by simp
next
  case (Cons a xs)
  obtain i u where a: "a = (i, u)" by (cases a)
  show ?case
    by (cases "audit_page (page_env env i) u") (simp_all add: a Let_def Cons.IH)
qed

lemma run_audit_post_cases:
  "run_audit (env\<lparr>post_result := Some e\<rparr>) ps =
     (if posts (run_audit (env\<lparr>post_result := None\<rparr>) ps) = []
      then run_audit (env\<lparr>post_result := None\<rparr>) ps
      else (run_audit (env\<lparr>post_result := None\<rparr>) ps)
             \<lparr>stderr := stderr (run_audit (env\<lparr>post_result := None\<rparr>) ps) @ [webhook_log e]\<rparr>) \<and>
   (GOOGLE_SHEETS_WEBHOOK_URL (GS_WEBHOOK_URL env) = [] \<longrightarrow>
      posts (run_audit (env\<lparr>post_result := None\<rparr>) ps) = [])"
proof -
  obtain res w where ap: "audit_pages env (enumerate 0 ps) \<lparr>generatedAt = now env, pages = []\<rparr> start = (res, w)"
    by (cases "audit_pages env (enumerate 0 ps) \<lparr>generatedAt = now env, pages = []\<rparr> start")
  have k: "posts w = []"
    using audit_pages_keeps [of env "enumerate 0 ps" "\<lparr>generatedAt = now env, pages = []\<rparr>" start]
    unfolding ap by (simp add: start_def)
  have ap': "audit_pages (env\<lparr>post_result := x\<rparr>) (enumerate 0 ps) \<lparr>generatedAt = now env, pages = []\<rparr> start = (res, w)" for x
    by (simp only: audit_pages_post_indep ap)
  show ?thesis
  proof (cases "mkdir_top env")
    case (Some e)
    then show ?thesis by (simp add: run_audit_def start_def)
  next
    case top: None
    show ?thesis
    proof (cases res)
      case (Inl e)
      then show ?thesis by (simp add: run_audit_def main_def ap' top k)
    next
      case (Inr rep)
      show ?thesis
      proof (cases "mkdir_main env")
        case (Some e)
        then show ?thesis by (simp add: run_audit_def main_def ap' top k Inr)
      next
        case mk: None
        show ?thesis
        proof (cases "write_json env")
          case (Some e)
          then show ?thesis by (simp add: run_audit_def main_def ap' top k Inr mk)
        next
          case wj: None
          show ?thesis
          proof (cases "write_html env")
            case (Some e)
            then show ?thesis by (simp add: run_audit_def main_def ap' top k Inr mk wj)
          next
            case wh: None
            show ?thesis
              by (cases "GOOGLE_SHEETS_WEBHOOK_URL (GS_WEBHOOK_URL env) = []")
                (simp_all add: run_audit_def main_def ap' top k Inr mk wj wh postToGoogleSheets_def
                  webhook_log_def)
          qed
        qed
      qed
    qed
  qed
qed

text \<open>
  Claim C9.  With an empty webhook URL nothing is posted and the run is the same whatever
  the POST would do.  With any URL, a run whose POST fails has the exit code, the files,
  the standard output, the audited pages and the POST of the run whose POST succeeds; its
  standard error has one more line, the logged error, if a POST was attempted.  When no
  call for a page or to the file system fails, the run with the failing POST still exits
  with code 0 and writes both files.
\<close>

theorem webhook_best_effort:
  "(GOOGLE_SHEETS_WEBHOOK_URL (GS_WEBHOOK_URL env) = [] \<longrightarrow>
      posts (run_audit (env\<lparr>post_result := Some e\<rparr>) ps) = [] \<and>
      run_audit (env\<lparr>post_result := Some e\<rparr>) ps = run_audit (env\<lparr>post_result := None\<rparr>) ps) \<and>
   exit_code (run_audit (env\<lparr>post_result := Some e\<rparr>) ps) =
     exit_code (run_audit (env\<lparr>post_result := None\<rparr>) ps) \<and>
   files (run_audit (env\<lparr>post_result := Some e\<rparr>) ps) =
     files (run_audit (env\<lparr>post_result := None\<rparr>) ps) \<and>
   stdout (run_audit (env\<lparr>post_result := Some e\<rparr>) ps) =
     stdout (run_audit (env\<lparr>post_result := None\<rparr>) ps) \<and>
   audited (run_audit (env\<lparr>post_result := Some e\<rparr>) ps) =
     audited (run_audit (env\<lparr>post_result := None\<rparr>) ps) \<and>
   posts (run_audit (env\<lparr>post_result := Some e\<rparr>) ps) =
     posts (run_audit (env\<lparr>post_result := None\<rparr>) ps) \<and>
   stderr (run_audit (env\<lparr>post_result := Some e\<rparr>) ps) =
     stderr (run_audit (env\<lparr>post_result := None\<rparr>) ps) @
     (if posts (run_audit (env\<lparr>post_result := None\<rparr>) ps) = [] then []
      else [(''Google Sheets webhook error:'', e)]) \<and>
   ((\<forall>i < length ps. \<not> page_fails (page_env env i)) \<and> run_ok env \<longrightarrow>
      exit_code (run_audit (env\<lparr>post_result := Some e\<rparr>) ps) = 0 \<and>
      map fst (files (run_audit (env\<lparr>post_result := Some e\<rparr>) ps)) =
        [''out/gritaudit-report.json'', ''out/gritaudit-report.html''])"
proof -
  have "(\<forall>i < length ps. \<not> page_fails (page_env env i)) \<and> run_ok env \<longrightarrow>
      exit_code (run_audit (env\<lparr>post_result := Some e\<rparr>) ps) = 0 \<and>
      map fst (files (run_audit (env\<lparr>post_result := Some e\<rparr>) ps)) =
        [''out/gritaudit-report.json'', ''out/gritaudit-report.html'']"
    using run_succeeds [of ps "env\<lparr>post_result := Some e\<rparr>"] by (simp add: run_ok_def)
  with run_audit_post_cases [where env = env and e = e and ps = ps] show ?thesis
    by (cases "posts (run_audit (env\<lparr>post_result := None\<rparr>) ps) = []")
      (simp_all add: webhook_log_def)
qed

theorem webhook_best_effort_witness:
  "posts (run_audit (good_env\<lparr>post_result := Some (Error ''ECONNREFUSED'')\<rparr>) PAGES) = [] \<and>
   run_audit (good_env\<lparr>post_result := Some (Error ''ECONNREFUSED'')\<rparr>) PAGES =
     run_audit (good_env\<lparr>post_result := None\<rparr>) PAGES \<and>
   exit_code (run_audit (hook_env\<lparr>post_result := Some (Error ''ECONNREFUSED'')\<rparr>) PAGES) = 0 \<and>
   stderr (run_audit (hook_env\<lparr>post_result := Some (Error ''ECONNREFUSED'')\<rparr>) PAGES) =
     stderr (run_audit (hook_env\<lparr>post_result := None\<rparr>) PAGES) @
     [(''Google Sheets webhook error:'', Error ''ECONNREFUSED'')]"
proof -
  have h: "GOOGLE_SHEETS_WEBHOOK_URL (GS_WEBHOOK_URL good_env) = []"
    by (simp add: good_env_def GOOGLE_SHEETS_WEBHOOK_URL_def)
  have g: "posts (run_audit (good_env\<lparr>post_result := Some (Error ''ECONNREFUSED'')\<rparr>) PAGES) = [] \<and>
      run_audit (good_env\<lparr>post_result := Some (Error ''ECONNREFUSED'')\<rparr>) PAGES =
        run_audit (good_env\<lparr>post_result := None\<rparr>) PAGES"
    by (rule mp [OF conjunct1 [OF webhook_best_effort
          [where env = good_env and e = "Error ''ECONNREFUSED''" and ps = PAGES]] h])
  have ok: "(\<forall>i < length PAGES. \<not> page_fails (page_env hook_env i)) \<and> run_ok hook_env"
    by (simp add: hook_env_def good_env_def good_page_ok run_ok_def)
  have "(\<forall>i < length PAGES. \<not> page_fails (page_env (hook_env\<lparr>post_result := None\<rparr>) i)) \<and>
      run_ok (hook_env\<lparr>post_result := None\<rparr>)"
    using ok by (simp add: run_ok_def)
  moreover have "GOOGLE_SHEETS_WEBHOOK_URL (GS_WEBHOOK_URL (hook_env\<lparr>post_result := None\<rparr>)) \<noteq> []"
    by (simp add: hook_env_def good_env_def GOOGLE_SHEETS_WEBHOOK_URL_def)
  ultimately have p: "posts (run_audit (hook_env\<lparr>post_result := None\<rparr>) PAGES) \<noteq> []"
    using run_succeeds [of PAGES "hook_env\<lparr>post_result := None\<rparr>"] by blast
  from webhook_best_effort [where env = hook_env and e = "Error ''ECONNREFUSED''" and ps = PAGES] ok p
  have k: "exit_code (run_audit (hook_env\<lparr>post_result := Some (Error ''ECONNREFUSED'')\<rparr>) PAGES) = 0 \<and>
      stderr (run_audit (hook_env\<lparr>post_result := Some (Error ''ECONNREFUSED'')\<rparr>) PAGES) =
        stderr (run_audit (hook_env\<lparr>post_result := None\<rparr>) PAGES) @
        [(''Google Sheets webhook error:'', Error ''ECONNREFUSED'')]"
    by simp
  show ?thesis
    by (intro conjI; (rule conjunct1 [OF g] | rule conjunct2 [OF g] | rule conjunct1 [OF k] |
          rule conjunct2 [OF k]))
qed

end
